theory Spec2Isabelle
  imports Complex_Main "HOL-Library.Word"
begin

section \<open>Python values used by the chat router\<close>

text \<open>
  The router (\<^verbatim>\<open>routers/chat.py\<close>) works on loosely typed dictionaries
  (\<^verbatim>\<open>Dict[str, Any]\<close>): the classifier's \<^verbatim>\<open>parsed_data\<close>, the
  \<^verbatim>\<open>transaction_data\<close> payload and the transaction metadata returned by the
  gateway. Their values are modelled by \<open>pyval\<close>. A Python \<^verbatim>\<open>float\<close> is a
  binary64 number: a finite one is represented by the rational it denotes (the sign of
  zero is not kept; \<^verbatim>\<open>int()\<close> gives 0 for both zeros), the others by their own
  constructors. Strings are lists of 8-bit characters, so the model speaks about ASCII text.
\<close>

datatype pyfloat = Finite rat | PosInf | NegInf | NaN

datatype pyval =
    PNone
  | PBool bool
  | PInt int
  | PFloat pyfloat
  | PStr string
  | PList "pyval list"
  | PDict "(string \<times> pyval) list"

type_synonym pydict = "(string \<times> pyval) list"

text \<open>\<^verbatim>\<open>d.get(k)\<close> and \<^verbatim>\<open>d.get(k, default)\<close>.\<close>

definition dict_get :: "pydict \<Rightarrow> string \<Rightarrow> pyval \<Rightarrow> pyval" where
  "dict_get d k dflt = (case map_of d k of None \<Rightarrow> dflt | Some v \<Rightarrow> v)"

text \<open>Truth value of an object, as \<^verbatim>\<open>if x:\<close> and \<^verbatim>\<open>not x\<close> test it.\<close>

fun truthy :: "pyval \<Rightarrow> bool" where
  "truthy PNone = False"
| "truthy (PBool b) = b"
| "truthy (PInt n) = (n \<noteq> 0)"
| "truthy (PFloat (Finite q)) = (q \<noteq> 0)"
| "truthy (PFloat _) = True"
| "truthy (PStr s) = (s \<noteq> [])"
| "truthy (PList xs) = (xs \<noteq> [])"
| "truthy (PDict d) = (d \<noteq> [])"

text \<open>
  Text produced by an f-string is kept as the list of its segments: the literal pieces and the
  objects interpolated between them, in order. Exceptions carry such a text as their message.
\<close>

datatype exn =
    HTTPException nat "fpart list"
  | ValueError "fpart list"
  | OtherError string "fpart list"
and fpart =
    Lit string
  | Fmt pyval
  | Repr pyval
  | StrExn exn

type_synonym ftext = "fpart list"

definition HTTP_400_BAD_REQUEST :: nat where
  "HTTP_400_BAD_REQUEST = 400"

definition HTTP_500_INTERNAL_SERVER_ERROR :: nat where
  "HTTP_500_INTERNAL_SERVER_ERROR = 500"

text \<open>Sequencing of computations that may raise: the first exception ends the computation.\<close>

definition bindE :: "exn + 'a \<Rightarrow> ('a \<Rightarrow> exn + 'b) \<Rightarrow> exn + 'b" where
  "bindE r f = (case r of Inl e \<Rightarrow> Inl e | Inr x \<Rightarrow> f x)"


section \<open>Binary64 arithmetic\<close>

text \<open>
  \<^verbatim>\<open>float(s)\<close>, the conversion of an \<^verbatim>\<open>int\<close> to \<^verbatim>\<open>float\<close> and the product of two floats
  are correctly rounded: the exact rational result is rounded to the nearest binary64 number,
  ties to the even significand, with gradual underflow below \<open>2^-1022\<close> and overflow to an
  infinity from \<open>2^1024\<close> on.
\<close>

definition pow2 :: "int \<Rightarrow> rat" where
  "pow2 e = (if 0 \<le> e then 2 ^ nat e else 1 / 2 ^ nat (- e))"

definition pow10 :: "int \<Rightarrow> rat" where
  "pow10 e = (if 0 \<le> e then 10 ^ nat e else 1 / 10 ^ nat (- e))"

text \<open>The number of binary digits of a positive integer (\<^verbatim>\<open>int.bit_length\<close>).\<close>

function bit_length :: "int \<Rightarrow> int" where
  "bit_length n = (if n \<le> 0 then 0 else 1 + bit_length (n div 2))"
  by pat_completeness auto
termination
  by (relation "measure nat") auto

declare bit_length.simps [simp del]

text \<open>The binary exponent of a positive rational \<open>a\<close>: \<open>2^e \<le> a < 2^(e+1)\<close>.\<close>

definition ilog2 :: "rat \<Rightarrow> int" where
  "ilog2 a = (let (n, d) = quotient_of a; e = bit_length n - bit_length d
              in if pow2 e \<le> a then e else e - 1)"

definition round_half_even :: "rat \<Rightarrow> int" where
  "round_half_even q =
     (let f = \<lfloor>q\<rfloor>; r = q - of_int f
      in if r < 1 / 2 then f
         else if 1 / 2 < r then f + 1
         else if even f then f else f + 1)"

text \<open>
  The significand \<open>m\<close> has at most 53 bits and the unit \<open>2^p\<close> is not below \<open>2^-1074\<close>;
  the rounded value \<open>m * 2^p\<close> has the binary exponent \<open>p + bit_length m - 1\<close>, which
  is at most 1023 for a binary64 number.
\<close>

definition round_binary64 :: "rat \<Rightarrow> pyfloat" where
  "round_binary64 q =
     (if q = 0 then Finite 0
      else let a = \<bar>q\<bar>; e = ilog2 a; p = max (e - 52) (- 1074);
               m = round_half_even (a / pow2 p)
           in if 1024 < p + bit_length m then (if 0 < q then PosInf else NegInf)
              else Finite ((if 0 < q then 1 else - 1) * of_int m * pow2 p))"

text \<open>The product \<^verbatim>\<open>x * y\<close> of two floats.\<close>

fun float_mul :: "pyfloat \<Rightarrow> pyfloat \<Rightarrow> pyfloat" where
  "float_mul NaN _ = NaN"
| "float_mul _ NaN = NaN"
| "float_mul (Finite a) (Finite b) = round_binary64 (a * b)"
| "float_mul (Finite a) PosInf = (if a = 0 then NaN else if 0 < a then PosInf else NegInf)"
| "float_mul (Finite a) NegInf = (if a = 0 then NaN else if 0 < a then NegInf else PosInf)"
| "float_mul PosInf (Finite b) = (if b = 0 then NaN else if 0 < b then PosInf else NegInf)"
| "float_mul NegInf (Finite b) = (if b = 0 then NaN else if 0 < b then NegInf else PosInf)"
| "float_mul PosInf PosInf = PosInf"
| "float_mul PosInf NegInf = NegInf"
| "float_mul NegInf PosInf = NegInf"
| "float_mul NegInf NegInf = PosInf"

text \<open>\<^verbatim>\<open>int(x)\<close> of a float truncates towards zero and raises on an infinity or a NaN.\<close>

fun int_of_float :: "pyfloat \<Rightarrow> exn + int" where
  "int_of_float (Finite q) = Inr (if 0 \<le> q then \<lfloor>q\<rfloor> else \<lceil>q\<rceil>)"
| "int_of_float NaN = Inl (ValueError [Lit ''cannot convert float NaN to integer''])"
| "int_of_float _ =
     Inl (OtherError ''OverflowError'' [Lit ''cannot convert float infinity to integer''])"


section \<open>Reading and writing numbers\<close>

definition is_digit :: "char \<Rightarrow> bool" where
  "is_digit c = (let n = (of_char c :: nat) in 48 \<le> n \<and> n \<le> 57)"

definition digit_val :: "char \<Rightarrow> int" where
  "digit_val c = (of_char c :: int) - 48"

text \<open>
  The white space that \<^verbatim>\<open>float()\<close> and \<^verbatim>\<open>int()\<close> strip at both ends of an ASCII
  string: tab, line feed, vertical tab, form feed, carriage return and space.
\<close>

definition is_space :: "char \<Rightarrow> bool" where
  "is_space c = (let n = (of_char c :: nat) in (9 \<le> n \<and> n \<le> 13) \<or> n = 32)"

definition strip :: "string \<Rightarrow> string" where
  "strip s = rev (dropWhile is_space (rev (dropWhile is_space s)))"

definition ascii_lower :: "char \<Rightarrow> char" where
  "ascii_lower c = (let n = (of_char c :: nat) in if 65 \<le> n \<and> n \<le> 90 then char_of (n + 32) else c)"

text \<open>
  \<^verbatim>\<open>digitpart ::= digit (["_"] digit)*\<close>: the value read, the number of digits and the rest
  of the string.
\<close>

fun digitpart_tail :: "int \<Rightarrow> nat \<Rightarrow> string \<Rightarrow> int \<times> nat \<times> string" where
  "digitpart_tail v k [] = (v, k, [])"
| "digitpart_tail v k [c] =
     (if is_digit c then (10 * v + digit_val c, Suc k, []) else (v, k, [c]))"
| "digitpart_tail v k (c # d # ds) =
     (if is_digit c then digitpart_tail (10 * v + digit_val c) (Suc k) (d # ds)
      else if c = CHR ''_'' \<and> is_digit d then digitpart_tail (10 * v + digit_val d) (Suc k) ds
      else (v, k, c # d # ds))"

definition digitpart :: "string \<Rightarrow> (int \<times> nat \<times> string) option" where
  "digitpart s =
     (case s of
        [] \<Rightarrow> None
      | c # cs \<Rightarrow> if is_digit c then Some (digitpart_tail (digit_val c) 1 cs) else None)"

text \<open>An optional sign: whether it is a minus, and the rest.\<close>

definition opt_sign :: "string \<Rightarrow> bool \<times> string" where
  "opt_sign s =
     (case s of
        [] \<Rightarrow> (False, [])
      | c # cs \<Rightarrow> if c = CHR ''-'' then (True, cs)
                  else if c = CHR ''+'' then (False, cs) else (False, s))"

text \<open>
  \<^verbatim>\<open>number ::= [digitpart] "." digitpart | digitpart ["."]\<close>: the digits read as one
  integer, the number of digits after the point, and the rest.
\<close>

definition number :: "string \<Rightarrow> (int \<times> nat \<times> string) option" where
  "number s =
     (case digitpart s of
        Some (i, _, r) \<Rightarrow>
          (case r of
             [] \<Rightarrow> Some (i, 0, [])
           | c # r' \<Rightarrow>
               if c = CHR ''.'' then
                 (case digitpart r' of
                    Some (f, k, r'') \<Rightarrow> Some (i * 10 ^ k + f, k, r'')
                  | None \<Rightarrow> Some (i, 0, r'))
               else Some (i, 0, r))
      | None \<Rightarrow>
          (case s of
             [] \<Rightarrow> None
           | c # r' \<Rightarrow>
               if c = CHR ''.'' then
                 (case digitpart r' of
                    Some (f, k, r'') \<Rightarrow> Some (f, k, r'')
                  | None \<Rightarrow> None)
               else None))"

text \<open>\<^verbatim>\<open>exponent ::= ("e" | "E") [sign] digitpart\<close>, optional: the exponent and the rest.\<close>

definition exponent :: "string \<Rightarrow> (int \<times> string) option" where
  "exponent s =
     (case s of
        [] \<Rightarrow> Some (0, [])
      | c # cs \<Rightarrow>
          if c = CHR ''e'' \<or> c = CHR ''E'' then
            (let (neg, r) = opt_sign cs
             in case digitpart r of
                  Some (n, _, r') \<Rightarrow> Some (if neg then - n else n, r')
                | None \<Rightarrow> None)
          else Some (0, s))"

text \<open>\<^verbatim>\<open>float(s)\<close> for a string.\<close>

definition float_of_str :: "string \<Rightarrow> exn + pyfloat" where
  "float_of_str s =
     (let (neg, u) = opt_sign (strip s); l = map ascii_lower u
      in if l = ''inf'' \<or> l = ''infinity'' then Inr (if neg then NegInf else PosInf)
         else if l = ''nan'' then Inr NaN
         else
           (case number u of
              None \<Rightarrow> Inl (ValueError [Lit ''could not convert string to float: '', Repr (PStr s)])
            | Some (m, k, r) \<Rightarrow>
                (case exponent r of
                   Some (e, []) \<Rightarrow>
                     Inr (round_binary64
                            ((if neg then - 1 else 1) * of_int m * pow10 (e - int k)))
                 | _ \<Rightarrow>
                     Inl (ValueError
                            [Lit ''could not convert string to float: '', Repr (PStr s)]))))"

text \<open>\<^verbatim>\<open>float(x)\<close>; an \<^verbatim>\<open>int\<close> beyond the binary64 range raises.\<close>

fun py_float :: "pyval \<Rightarrow> exn + pyfloat" where
  "py_float (PStr s) = float_of_str s"
| "py_float (PFloat x) = Inr x"
| "py_float (PInt n) =
     (case round_binary64 (of_int n) of
        Finite q \<Rightarrow> Inr (Finite q)
      | _ \<Rightarrow> Inl (OtherError ''OverflowError'' [Lit ''int too large to convert to float'']))"
| "py_float (PBool b) = Inr (Finite (if b then 1 else 0))"
| "py_float v =
     Inl (OtherError ''TypeError''
            [Lit ''float() argument must be a string or a real number''])"

text \<open>\<^verbatim>\<open>str(n)\<close> for an \<^verbatim>\<open>int\<close>.\<close>

function str_digits :: "int \<Rightarrow> string" where
  "str_digits n =
     (if n < 10 then [char_of (48 + n)]
      else str_digits (n div 10) @ [char_of (48 + n mod 10)])"
  by pat_completeness auto
termination
  by (relation "measure nat") auto

declare str_digits.simps [simp del]

definition str_int :: "int \<Rightarrow> string" where
  "str_int n = (if n < 0 then CHR ''-'' # str_digits (- n) else str_digits n)"

text \<open>\<^verbatim>\<open>int(s)\<close> for a string, base 10.\<close>

definition int_of_str :: "string \<Rightarrow> exn + int" where
  "int_of_str s =
     (let (neg, u) = opt_sign (strip s)
      in case digitpart u of
           Some (n, _, []) \<Rightarrow> Inr (if neg then - n else n)
         | _ \<Rightarrow>
             Inl (ValueError [Lit ''invalid literal for int() with base 10: '', Repr (PStr s)]))"

text \<open>\<^verbatim>\<open>int(x)\<close>.\<close>

fun py_int :: "pyval \<Rightarrow> exn + int" where
  "py_int (PStr s) = int_of_str s"
| "py_int (PInt n) = Inr n"
| "py_int (PBool b) = Inr (if b then 1 else 0)"
| "py_int (PFloat x) = int_of_float x"
| "py_int v =
     Inl (OtherError ''TypeError''
            [Lit ''int() argument must be a string, a bytes-like object or a real number''])"


section \<open>Amount normalization\<close>

text \<open>
  The expression \<^verbatim>\<open>str(int(float(amount_str) * (10 ** decimals)))\<close> of the stake, unstake
  and transfer branches of \<^verbatim>\<open>chat_endpoint\<close>. The power \<^verbatim>\<open>10 ** decimals\<close> is an
  \<^verbatim>\<open>int\<close>, converted to a float for the product.
\<close>

definition amount_in_smallest :: "pyval \<Rightarrow> nat \<Rightarrow> exn + string" where
  "amount_in_smallest amount_str decimals =
     bindE (py_float amount_str) (\<lambda>x.
     bindE (py_float (PInt (10 ^ decimals))) (\<lambda>y.
     bindE (int_of_float (float_mul x y)) (\<lambda>n.
     Inr (str_int n))))"


section \<open>Data model of the router\<close>

text \<open>
  Modelled from the spec: the schema classes of \<^verbatim>\<open>models/schemas.py\<close>, which the router
  imports and which are not part of the sources at hand. The fields are those the router
  reads and writes; the spec (section 3) gives the enumerations.
\<close>

datatype IntentAction =
    AMBIGUOUS | GET_BALANCE | GET_STAKE_INFO | STAKE_TOKEN | UNSTAKE_TOKEN | TRANSFER_TOKEN
  | CREATE_ADDRESS_BOOK | SAVE_CONTACT | LIST_CONTACTS | UNKNOWN

datatype TokenType = SUI | USDC

fun token_value :: "TokenType \<Rightarrow> string" where
  "token_value SUI = ''SUI''"
| "token_value USDC = ''USDC''"

text \<open>\<^verbatim>\<open>TokenType(v)\<close>: the member with that value, or a \<^verbatim>\<open>ValueError\<close>.\<close>

definition TokenType_of :: "pyval \<Rightarrow> exn + TokenType" where
  "TokenType_of v =
     (if v = PStr ''SUI'' then Inr SUI
      else if v = PStr ''USDC'' then Inr USDC
      else Inl (ValueError [Repr v, Lit '' is not a valid TokenType'']))"

text \<open>
  The three risk levels. A level compares equal to the string that is its value, which is what
  the router's test \<^verbatim>\<open>dry_run.risk_level != "high"\<close> relies on.
\<close>

datatype RiskLevel = Low | Medium | High

fun risk_value :: "RiskLevel \<Rightarrow> string" where
  "risk_value Low = ''low''"
| "risk_value Medium = ''medium''"
| "risk_value High = ''high''"

record Intent =
  action :: IntentAction
  parsed_data :: pydict
  confidence :: rat
  clarification_question :: "string option"

record DryRunSummary =
  action_description :: string
  risk_level :: RiskLevel
  estimated_gas_fee :: pyval

record ChatRequest =
  chat_message :: string
  chat_user_address :: "string option"
  chat_context :: "pydict option"

record ChatResponse =
  intent :: Intent
  dry_run :: "DryRunSummary option"
  ready_to_execute :: bool
  message :: ftext
  transaction_data :: "pydict option"

record BalanceInfo =
  balance :: pyval
  balance_formatted :: pyval
  balance_token :: TokenType

record StakeInfo =
  staked_amount :: pyval
  staked_amount_formatted :: pyval
  stake_token :: TokenType

record AddressBook =
  object_id :: string

type_synonym bytes = "8 word list"


section \<open>External collaborators and effects\<close>

text \<open>
  Every call the router makes to a service of the \<^verbatim>\<open>services\<close> package is recorded with
  its arguments. An endpoint computes the list of calls it made, in order, together with either
  the exception it raised or its result. The calls of the chat endpoint:
\<close>

datatype call =
    ParseIntent string "string option"
  | GetBalance string TokenType
  | GetUserStake string TokenType
  | EstimateGasFee bytes
  | GenerateDryRunSummary string pydict pyval pyval
  | GetUserAddressBook string
  | BuildCreateAddressBookTx string
  | EncryptContact string pyval pyval pyval
  | BuildAddContactTx string string string bytes bytes int

type_synonym ('c, 'a) eff = "'c list \<times> (exn + 'a)"

definition ret :: "'a \<Rightarrow> ('c, 'a) eff" where
  "ret x = ([], Inr x)"

definition raise :: "exn \<Rightarrow> ('c, 'a) eff" where
  "raise e = ([], Inl e)"

definition pure :: "exn + 'a \<Rightarrow> ('c, 'a) eff" where
  "pure r = ([], r)"

definition extern :: "'c \<Rightarrow> exn + 'a \<Rightarrow> ('c, 'a) eff" where
  "extern c r = ([c], r)"

definition and_then :: "('c, 'a) eff \<Rightarrow> ('a \<Rightarrow> ('c, 'b) eff) \<Rightarrow> ('c, 'b) eff" where
  "and_then m f =
     (case snd m of
        Inl e \<Rightarrow> (fst m, Inl e)
      | Inr x \<Rightarrow> (fst m @ fst (f x), snd (f x)))"

text \<open>\<^verbatim>\<open>try: m except Exception as e: h(e)\<close>.\<close>

definition try_except :: "('c, 'a) eff \<Rightarrow> (exn \<Rightarrow> ('c, 'a) eff) \<Rightarrow> ('c, 'a) eff" where
  "try_except m h =
     (case snd m of
        Inl e \<Rightarrow> (fst m @ fst (h e), snd (h e))
      | Inr x \<Rightarrow> m)"

text \<open>
  The answers of the collaborators, as functions of the arguments of the call. The operating
  system's \<^verbatim>\<open>os.urandom(16)\<close> and \<^verbatim>\<open>int(time.time())\<close> are part of the environment.
\<close>

record services =
  parse_intent :: "string \<Rightarrow> string option \<Rightarrow> exn + Intent"
  get_balance :: "string \<Rightarrow> TokenType \<Rightarrow> exn + BalanceInfo"
  get_user_stake :: "string \<Rightarrow> TokenType \<Rightarrow> exn + StakeInfo"
  estimate_gas_fee :: "bytes \<Rightarrow> exn + pyval"
  generate_dry_run_summary :: "string \<Rightarrow> pydict \<Rightarrow> pyval \<Rightarrow> pyval \<Rightarrow> exn + DryRunSummary"
  get_user_address_book :: "string \<Rightarrow> exn + AddressBook option"
  build_create_address_book_tx :: "string \<Rightarrow> exn + pydict"
  encrypt_contact :: "string \<Rightarrow> pyval \<Rightarrow> pyval \<Rightarrow> pyval \<Rightarrow> exn + bytes"
  build_add_contact_tx :: "string \<Rightarrow> string \<Rightarrow> string \<Rightarrow> bytes \<Rightarrow> bytes \<Rightarrow> int \<Rightarrow> exn + pydict"
  urandom16 :: bytes
  time_now :: int


section \<open>The chat endpoint\<close>

text \<open>
  The guard \<^verbatim>\<open>if not request.user_address: raise HTTPException(400, detail)\<close> that opens
  every branch but the first and the last: an absent and an empty address are both refused.
\<close>

definition with_address ::
  "string option \<Rightarrow> ftext \<Rightarrow> (string \<Rightarrow> ('c, 'a) eff) \<Rightarrow> ('c, 'a) eff" where
  "with_address ua detail k =
     (case ua of
        None \<Rightarrow> raise (HTTPException HTTP_400_BAD_REQUEST detail)
      | Some a \<Rightarrow> if a = [] then raise (HTTPException HTTP_400_BAD_REQUEST detail) else k a)"

text \<open>A response without dry run and without payload (\<^verbatim>\<open>transaction_data\<close> defaults to None).\<close>

definition info_response :: "Intent \<Rightarrow> ftext \<Rightarrow> ChatResponse" where
  "info_response i msg =
     \<lparr>intent = i, dry_run = None, ready_to_execute = False, message = msg,
      transaction_data = None\<rparr>"

definition ambiguous_branch :: "Intent \<Rightarrow> (call, ChatResponse) eff" where
  "ambiguous_branch i =
     ret (info_response i
            [Lit (case clarification_question i of
                    None \<Rightarrow> ''Could you provide more details?''
                  | Some q \<Rightarrow> if q = [] then ''Could you provide more details?'' else q)])"

definition get_balance_branch :: "services \<Rightarrow> ChatRequest \<Rightarrow> Intent \<Rightarrow> (call, ChatResponse) eff" where
  "get_balance_branch sv request i =
     with_address (chat_user_address request) [Lit ''User address required for balance query'']
       (\<lambda>user_address.
     and_then (pure (TokenType_of (dict_get (parsed_data i) ''token'' (PStr ''SUI'')))) (\<lambda>token_type.
     and_then (extern (GetBalance user_address token_type)
                 (get_balance sv user_address token_type)) (\<lambda>balance_info.
     ret (info_response i
            [Lit ''Your '', Fmt (PStr (token_value (balance_token balance_info))),
             Lit '' balance is '', Fmt (balance_formatted balance_info)]))))"

definition get_stake_info_branch :: "services \<Rightarrow> ChatRequest \<Rightarrow> Intent \<Rightarrow> (call, ChatResponse) eff" where
  "get_stake_info_branch sv request i =
     with_address (chat_user_address request) [Lit ''User address required for stake info query'']
       (\<lambda>user_address.
     and_then (pure (TokenType_of (dict_get (parsed_data i) ''token'' (PStr ''SUI'')))) (\<lambda>token_type.
     and_then (extern (GetUserStake user_address token_type)
                 (get_user_stake sv user_address token_type)) (\<lambda>stake_info.
     ret (info_response i
            [Lit ''You have staked '', Fmt (staked_amount_formatted stake_info), Lit '' '',
             Fmt (PStr (token_value (stake_token stake_info))),
             Lit '' in the staking pool.'']))))"

definition stake_token_branch :: "services \<Rightarrow> ChatRequest \<Rightarrow> Intent \<Rightarrow> (call, ChatResponse) eff" where
  "stake_token_branch sv request i =
     with_address (chat_user_address request) [Lit ''User address required for staking'']
       (\<lambda>user_address.
     and_then (pure (TokenType_of (dict_get (parsed_data i) ''token'' (PStr ''SUI'')))) (\<lambda>token_type.
     and_then (extern (GetBalance user_address token_type)
                 (get_balance sv user_address token_type)) (\<lambda>balance_info.
     let amount_str = dict_get (parsed_data i) ''amount'' (PStr ''0'');
         decimals = 9
     in
     and_then (pure (amount_in_smallest amount_str decimals)) (\<lambda>amount.
     and_then (extern (EstimateGasFee []) (estimate_gas_fee sv [])) (\<lambda>estimated_gas.
     let summary_data = [(''recipient'', PStr ''Staking Pool''), (''amount'', PStr amount),
                         (''token'', PStr (token_value token_type))]
     in
     and_then (extern (GenerateDryRunSummary ''stake_token'' summary_data
                         (balance balance_info) estimated_gas)
                 (generate_dry_run_summary sv ''stake_token'' summary_data
                    (balance balance_info) estimated_gas)) (\<lambda>dry.
     ret \<lparr>intent = i, dry_run = Some dry,
          ready_to_execute = (if risk_value (risk_level dry) \<noteq> ''high'' then True else False),
          message = [Lit ''Ready to stake '', Fmt amount_str, Lit '' '',
                     Fmt (PStr (token_value token_type)), Lit ''. Estimated gas: ~'',
                     Fmt (estimated_gas_fee dry), Lit '' SUI.''],
          transaction_data =
            Some [(''action'', PStr ''stake_token''), (''amount'', PStr amount),
                  (''token'', PStr (token_value token_type))]\<rparr>))))))"

definition unstake_token_branch :: "services \<Rightarrow> ChatRequest \<Rightarrow> Intent \<Rightarrow> (call, ChatResponse) eff" where
  "unstake_token_branch sv request i =
     with_address (chat_user_address request) [Lit ''User address required for unstaking'']
       (\<lambda>user_address.
     and_then (pure (TokenType_of (dict_get (parsed_data i) ''token'' (PStr ''SUI'')))) (\<lambda>token_type.
     and_then (extern (GetUserStake user_address token_type)
                 (get_user_stake sv user_address token_type)) (\<lambda>stake_info.
     and_then (extern (GetBalance user_address token_type)
                 (get_balance sv user_address token_type)) (\<lambda>balance_info.
     let amount_str = dict_get (parsed_data i) ''amount'' (PStr ''0'');
         decimals = 9
     in
     and_then (pure (amount_in_smallest amount_str decimals)) (\<lambda>amount.
     and_then (pure (int_of_str amount)) (\<lambda>requested.
     and_then (pure (py_int (staked_amount stake_info))) (\<lambda>staked.
     if requested > staked then
       ret (info_response i
              [Lit ''Insufficient staked amount. You have '',
               Fmt (staked_amount_formatted stake_info), Lit '' '',
               Fmt (PStr (token_value token_type)), Lit '' staked, but trying to unstake '',
               Fmt amount_str, Lit '' '', Fmt (PStr (token_value token_type)), Lit ''.''])
     else
     and_then (extern (EstimateGasFee []) (estimate_gas_fee sv [])) (\<lambda>estimated_gas.
     let summary_data = [(''recipient'', PStr user_address), (''amount'', PStr amount),
                         (''token'', PStr (token_value token_type))]
     in
     and_then (extern (GenerateDryRunSummary ''unstake_token'' summary_data
                         (balance balance_info) estimated_gas)
                 (generate_dry_run_summary sv ''unstake_token'' summary_data
                    (balance balance_info) estimated_gas)) (\<lambda>dry.
     ret \<lparr>intent = i, dry_run = Some dry, ready_to_execute = True,
          message = [Lit ''Ready to unstake '', Fmt amount_str, Lit '' '',
                     Fmt (PStr (token_value token_type)), Lit ''. Estimated gas: ~'',
                     Fmt (estimated_gas_fee dry), Lit '' SUI.''],
          transaction_data =
            Some [(''action'', PStr ''unstake_token''), (''amount'', PStr amount),
                  (''token'', PStr (token_value token_type))]\<rparr>)))))))))"

definition transfer_token_branch :: "services \<Rightarrow> ChatRequest \<Rightarrow> Intent \<Rightarrow> (call, ChatResponse) eff" where
  "transfer_token_branch sv request i =
     with_address (chat_user_address request) [Lit ''User address required for transfers'']
       (\<lambda>user_address.
     let recipient = dict_get (parsed_data i) ''recipient'' PNone;
         is_contact_name = dict_get (parsed_data i) ''is_contact_name'' (PBool False)
     in
     if truthy is_contact_name then
       and_then (extern (GetUserAddressBook user_address)
                   (get_user_address_book sv user_address)) (\<lambda>address_book.
       case address_book of
         None \<Rightarrow>
           ret (info_response i
                  [Lit (''Contact '' @ [CHR 0x27]), Fmt recipient,
                   Lit ''' not found. You don't have an address book yet. Say 'Create my address book' to get started, then save contacts with 'Save [name] [address] as [key]'.''])
       | Some book \<Rightarrow>
           ret (info_response i
                  [Lit ''Contact name resolution is coming soon! For now, please use the full wallet address. You can check your saved contacts in Sui Explorer using your address book ID: '',
                   Fmt (PStr (take 20 (object_id book))), Lit ''...'']))
     else
     and_then (pure (TokenType_of (dict_get (parsed_data i) ''token'' (PStr ''SUI'')))) (\<lambda>token_type.
     and_then (extern (GetBalance user_address token_type)
                 (get_balance sv user_address token_type)) (\<lambda>balance_info.
     let amount_str = dict_get (parsed_data i) ''amount'' (PStr ''0'');
         decimals = (if token_type = SUI then 9 else 6)
     in
     and_then (pure (amount_in_smallest amount_str decimals)) (\<lambda>amount.
     and_then (extern (EstimateGasFee []) (estimate_gas_fee sv [])) (\<lambda>estimated_gas.
     let summary_data = [(''recipient'', recipient), (''amount'', PStr amount),
                         (''token'', PStr (token_value token_type))]
     in
     and_then (extern (GenerateDryRunSummary ''transfer_token'' summary_data
                         (balance balance_info) estimated_gas)
                 (generate_dry_run_summary sv ''transfer_token'' summary_data
                    (balance balance_info) estimated_gas)) (\<lambda>dry.
     ret \<lparr>intent = i, dry_run = Some dry,
          ready_to_execute = (if risk_value (risk_level dry) \<noteq> ''high'' then True else False),
          message = [Lit ''Ready to '', Fmt (PStr (action_description dry)),
                     Lit ''. Estimated gas: ~'', Fmt (estimated_gas_fee dry), Lit '' SUI.''],
          transaction_data =
            Some [(''action'', PStr ''transfer_token''), (''recipient'', recipient),
                  (''amount'', PStr amount), (''token'', PStr (token_value token_type))]\<rparr>))))))"

definition create_address_book_branch ::
  "services \<Rightarrow> ChatRequest \<Rightarrow> Intent \<Rightarrow> (call, ChatResponse) eff" where
  "create_address_book_branch sv request i =
     with_address (chat_user_address request) [Lit ''User address required to create address book'']
       (\<lambda>user_address.
     and_then (extern (GetUserAddressBook user_address)
                 (get_user_address_book sv user_address)) (\<lambda>existing_book.
     case existing_book of
       Some book \<Rightarrow>
         ret (info_response i
                [Lit ''You already have an address book (ID: '',
                 Fmt (PStr (take 16 (object_id book))),
                 Lit ''...). You can start saving contacts!''])
     | None \<Rightarrow>
         and_then (extern (BuildCreateAddressBookTx user_address)
                     (build_create_address_book_tx sv user_address)) (\<lambda>tx_result.
         ret \<lparr>intent = i, dry_run = None, ready_to_execute = True,
              message = [Lit ''Ready to create your on-chain address book. This is a one-time setup that stores your contacts permanently on Sui. Estimated gas: ~0.01 SUI.''],
              transaction_data =
                Some [(''action'', PStr ''create_address_book''),
                      (''transaction_type'', dict_get tx_result ''transaction_type'' PNone),
                      (''target'', dict_get tx_result ''target'' PNone),
                      (''arguments'', dict_get tx_result ''arguments'' (PList [])),
                      (''type_arguments'', dict_get tx_result ''type_arguments'' (PList []))]\<rparr>)))"

text \<open>\<^verbatim>\<open>x.lower().replace(" ", "_")\<close>, which only a string offers.\<close>

definition lower_replace :: "pyval \<Rightarrow> exn + string" where
  "lower_replace v =
     (case v of
        PStr s \<Rightarrow> Inr (map (\<lambda>c. if c = CHR '' '' then CHR ''_'' else c) (map ascii_lower s))
      | _ \<Rightarrow> Inl (OtherError ''AttributeError'' [Lit ''object has no attribute lower'']))"

definition save_contact_branch :: "services \<Rightarrow> ChatRequest \<Rightarrow> Intent \<Rightarrow> (call, ChatResponse) eff" where
  "save_contact_branch sv request i =
     with_address (chat_user_address request) [Lit ''User address required to save contact'']
       (\<lambda>user_address.
     and_then (pure (lower_replace (dict_get (parsed_data i) ''contact_key'' (PStr [])))) (\<lambda>contact_key.
     let contact_name = dict_get (parsed_data i) ''contact_name'' (PStr []);
         contact_address = dict_get (parsed_data i) ''contact_address'' (PStr []);
         notes = dict_get (parsed_data i) ''notes'' (PStr [])
     in
     if contact_key = [] \<or> \<not> truthy contact_address then
       ret (info_response i
              [Lit (''I need a contact name/key and wallet address to save. Example: 'Save Alice's address 0x123... as alice'' @ [CHR 0x27])])
     else
     and_then (extern (GetUserAddressBook user_address)
                 (get_user_address_book sv user_address)) (\<lambda>address_book.
     case address_book of
       None \<Rightarrow>
         ret (info_response i
                [Lit ''You don't have an address book yet. Say 'Create my address book' first!''])
     | Some book \<Rightarrow>
         and_then (extern (EncryptContact user_address contact_name contact_address notes)
                     (encrypt_contact sv user_address contact_name contact_address notes))
           (\<lambda>encrypted_data.
         let nonce = urandom16 sv;
             timestamp = time_now sv
         in
         and_then (extern (BuildAddContactTx user_address (object_id book) contact_key
                             encrypted_data nonce timestamp)
                     (build_add_contact_tx sv user_address (object_id book) contact_key
                        encrypted_data nonce timestamp)) (\<lambda>tx_result.
         ret \<lparr>intent = i, dry_run = None, ready_to_execute = True,
              message = [Lit (''Ready to save '' @ [CHR 0x27]), Fmt contact_name,
                         Lit (''' as '' @ [CHR 0x27]), Fmt (PStr contact_key),
                         Lit ''' to your address book. This will be encrypted and stored on-chain. Estimated gas: ~0.02 SUI.''],
              transaction_data =
                Some [(''action'', PStr ''save_contact''),
                      (''transaction_type'', dict_get tx_result ''transaction_type'' PNone),
                      (''target'', dict_get tx_result ''target'' PNone),
                      (''arguments'', dict_get tx_result ''arguments'' (PList [])),
                      (''type_arguments'', dict_get tx_result ''type_arguments'' (PList [])),
                      (''contact_key'', PStr contact_key),
                      (''contact_name'', contact_name)]\<rparr>)))))"

definition list_contacts_branch :: "services \<Rightarrow> ChatRequest \<Rightarrow> Intent \<Rightarrow> (call, ChatResponse) eff" where
  "list_contacts_branch sv request i =
     with_address (chat_user_address request) [Lit ''User address required to list contacts'']
       (\<lambda>user_address.
     and_then (extern (GetUserAddressBook user_address)
                 (get_user_address_book sv user_address)) (\<lambda>address_book.
     case address_book of
       None \<Rightarrow>
         ret (info_response i
                [Lit ''You don't have an address book yet. Say 'Create my address book' to get started!''])
     | Some book \<Rightarrow>
         ret (info_response i
                [Lit ''Your address book (ID: '', Fmt (PStr (take 16 (object_id book))),
                 Lit ''...) is ready. Contact listing from on-chain data is coming soon! For now, you can save contacts using 'Save [name] [address] as [key]'.''])))"

text \<open>The chain of \<^verbatim>\<open>if\<close>/\<^verbatim>\<open>elif\<close> on \<^verbatim>\<open>intent.action\<close>.\<close>

fun dispatch :: "services \<Rightarrow> ChatRequest \<Rightarrow> Intent \<Rightarrow> IntentAction \<Rightarrow> (call, ChatResponse) eff" where
  "dispatch sv request i AMBIGUOUS = ambiguous_branch i"
| "dispatch sv request i GET_BALANCE = get_balance_branch sv request i"
| "dispatch sv request i GET_STAKE_INFO = get_stake_info_branch sv request i"
| "dispatch sv request i STAKE_TOKEN = stake_token_branch sv request i"
| "dispatch sv request i UNSTAKE_TOKEN = unstake_token_branch sv request i"
| "dispatch sv request i TRANSFER_TOKEN = transfer_token_branch sv request i"
| "dispatch sv request i CREATE_ADDRESS_BOOK = create_address_book_branch sv request i"
| "dispatch sv request i SAVE_CONTACT = save_contact_branch sv request i"
| "dispatch sv request i LIST_CONTACTS = list_contacts_branch sv request i"
| "dispatch sv request i UNKNOWN =
     ret (info_response i [Lit ''I didn't understand that. Could you rephrase?''])"

text \<open>
  The handlers \<^verbatim>\<open>except HTTPException: raise\<close> and
  \<^verbatim>\<open>except Exception as e: raise HTTPException(500, ...)\<close> around the body.
\<close>

definition reraise_http :: "string \<Rightarrow> exn \<Rightarrow> ('c, 'a) eff" where
  "reraise_http prefix e =
     (case e of
        HTTPException st detail \<Rightarrow> raise (HTTPException st detail)
      | _ \<Rightarrow> raise (HTTPException HTTP_500_INTERNAL_SERVER_ERROR [Lit prefix, StrExn e]))"

definition chat_endpoint :: "services \<Rightarrow> ChatRequest \<Rightarrow> (call, ChatResponse) eff" where
  "chat_endpoint sv request =
     try_except
       (and_then (extern (ParseIntent (chat_message request) (chat_user_address request))
                    (parse_intent sv (chat_message request) (chat_user_address request)))
          (\<lambda>i. dispatch sv request i (action i)))
       (reraise_http ''Error processing request: '')"


section \<open>The execute endpoint\<close>

text \<open>
  Modelled from the spec: \<^verbatim>\<open>ExecuteTransactionRequest\<close> and \<^verbatim>\<open>TransactionResult\<close> of
  \<^verbatim>\<open>models/schemas.py\<close> (spec, sections 3 and 6), and the result of the gateway's
  builders, a dictionary that holds the built transaction under \<^verbatim>\<open>transaction_bytes\<close>.
\<close>

record ExecuteTransactionRequest =
  exec_user_address :: string
  exec_transaction_data :: pydict

record TransactionResult =
  success :: bool
  transaction_digest :: "string option"
  effects :: "pydict option"
  error :: "string option"

record BuiltTransaction =
  transaction_bytes :: bytes

text \<open>
  The calls of the executor: the gateway's three builders, and the wallet signer, which is
  constructed from the private key and then asked for its address, for signing and submitting
  built bytes, or for building and executing a transfer. The wallet is identified by its key.
\<close>

datatype exec_call =
    WalletService pyval
  | WalletGetAddress pyval
  | WalletExecuteTransaction pyval bytes
  | WalletBuildAndExecuteTransfer pyval pyval pyval TokenType
  | BuildStakeTransaction string pyval TokenType
  | BuildUnstakeTransaction string pyval TokenType
  | BuildTransferTransaction string pyval pyval TokenType

record executor_services =
  wallet_service :: "pyval \<Rightarrow> exn + unit"
  wallet_get_address :: "pyval \<Rightarrow> exn + string"
  wallet_execute_transaction :: "pyval \<Rightarrow> bytes \<Rightarrow> exn + TransactionResult"
  wallet_build_and_execute_transfer ::
    "pyval \<Rightarrow> pyval \<Rightarrow> pyval \<Rightarrow> TokenType \<Rightarrow> exn + TransactionResult"
  build_stake_transaction :: "string \<Rightarrow> pyval \<Rightarrow> TokenType \<Rightarrow> exn + BuiltTransaction"
  build_unstake_transaction :: "string \<Rightarrow> pyval \<Rightarrow> TokenType \<Rightarrow> exn + BuiltTransaction"
  build_transfer_transaction ::
    "string \<Rightarrow> pyval \<Rightarrow> pyval \<Rightarrow> TokenType \<Rightarrow> exn + BuiltTransaction"

text \<open>\<^verbatim>\<open>try: m except ValueError as e: raise HTTPException(400, prefix + str(e))\<close>.\<close>

definition except_value_error :: "(exec_call, 'a) eff \<Rightarrow> string \<Rightarrow> (exec_call, 'a) eff" where
  "except_value_error m prefix =
     (case snd m of
        Inl (ValueError msg) \<Rightarrow>
          (fst m, Inl (HTTPException HTTP_400_BAD_REQUEST [Lit prefix, StrExn (ValueError msg)]))
      | _ \<Rightarrow> m)"

text \<open>\<^verbatim>\<open>bytes.hex()\<close>: two lower-case hexadecimal digits for each byte.\<close>

definition hex_digit :: "nat \<Rightarrow> char" where
  "hex_digit n = (if n < 10 then char_of (48 + n) else char_of (87 + n))"

definition hex :: "bytes \<Rightarrow> string" where
  "hex bs = concat (map (\<lambda>b. [hex_digit (unat b div 16), hex_digit (unat b mod 16)]) bs)"

text \<open>\<^verbatim>\<open>f"{result.error}"\<close>.\<close>

definition error_text :: "TransactionResult \<Rightarrow> pyval" where
  "error_text r = (case error r of None \<Rightarrow> PNone | Some e \<Rightarrow> PStr e)"

text \<open>The result of the client-signing path.\<close>

definition ready_for_signing :: "string \<Rightarrow> string \<Rightarrow> TransactionResult" where
  "ready_for_signing tx_hex msg =
     \<lparr>success = True, transaction_digest = None,
      effects = Some [(''status'', PStr ''ready_for_signing''),
                      (''transaction_bytes'', PStr tx_hex),
                      (''message'', PStr msg)],
      error = None\<rparr>"

definition execute_stake ::
  "executor_services \<Rightarrow> ExecuteTransactionRequest \<Rightarrow> pyval \<Rightarrow> (exec_call, TransactionResult) eff" where
  "execute_stake sv request private_key =
     (let tx_data = exec_transaction_data request;
          amount = dict_get tx_data ''amount'' PNone;
          token = dict_get tx_data ''token'' (PStr ''SUI'')
      in
      if \<not> truthy amount then
        raise (HTTPException HTTP_400_BAD_REQUEST [Lit ''Missing amount in transaction data''])
      else if truthy private_key then
        except_value_error
          (and_then (extern (WalletService private_key) (wallet_service sv private_key)) (\<lambda>wallet.
           and_then (extern (WalletGetAddress private_key) (wallet_get_address sv private_key)) (\<lambda>sender.
           and_then (pure (TokenType_of token)) (\<lambda>token_type.
           and_then (extern (BuildStakeTransaction sender amount token_type)
                    (build_stake_transaction sv sender amount token_type)) (\<lambda>tx_data_dict.
           and_then (extern (WalletExecuteTransaction private_key (transaction_bytes tx_data_dict))
                    (wallet_execute_transaction sv private_key (transaction_bytes tx_data_dict)))
             (\<lambda>result.
           if success result then ret result
           else raise (HTTPException HTTP_500_INTERNAL_SERVER_ERROR
                          [Lit ''Stake execution failed: '', Fmt (error_text result)])))))))
          ''Wallet error: ''
      else
        except_value_error
          (and_then (pure (TokenType_of token)) (\<lambda>token_type.
           and_then (extern (BuildStakeTransaction (exec_user_address request) amount token_type)
                    (build_stake_transaction sv (exec_user_address request) amount token_type))
             (\<lambda>tx_bytes_dict.
           let tx_hex = hex (transaction_bytes tx_bytes_dict)
           in ret (ready_for_signing tx_hex
                      ''Stake transaction built. Sign with your wallet to execute.''))))
          ''Failed to build stake transaction: '')"

definition execute_unstake ::
  "executor_services \<Rightarrow> ExecuteTransactionRequest \<Rightarrow> pyval \<Rightarrow> (exec_call, TransactionResult) eff" where
  "execute_unstake sv request private_key =
     (let tx_data = exec_transaction_data request;
          amount = dict_get tx_data ''amount'' PNone;
          token = dict_get tx_data ''token'' (PStr ''SUI'')
      in
      if \<not> truthy amount then
        raise (HTTPException HTTP_400_BAD_REQUEST [Lit ''Missing amount in transaction data''])
      else if truthy private_key then
        except_value_error
          (and_then (extern (WalletService private_key) (wallet_service sv private_key)) (\<lambda>wallet.
           and_then (extern (WalletGetAddress private_key) (wallet_get_address sv private_key)) (\<lambda>sender.
           and_then (pure (TokenType_of token)) (\<lambda>token_type.
           and_then (extern (BuildUnstakeTransaction sender amount token_type)
                    (build_unstake_transaction sv sender amount token_type)) (\<lambda>tx_data_dict.
           and_then (extern (WalletExecuteTransaction private_key (transaction_bytes tx_data_dict))
                    (wallet_execute_transaction sv private_key (transaction_bytes tx_data_dict)))
             (\<lambda>result.
           if success result then ret result
           else raise (HTTPException HTTP_500_INTERNAL_SERVER_ERROR
                          [Lit ''Unstake execution failed: '', Fmt (error_text result)])))))))
          ''Wallet error: ''
      else
        except_value_error
          (and_then (pure (TokenType_of token)) (\<lambda>token_type.
           and_then (extern (BuildUnstakeTransaction (exec_user_address request) amount token_type)
                    (build_unstake_transaction sv (exec_user_address request) amount token_type))
             (\<lambda>tx_bytes_dict.
           let tx_hex = hex (transaction_bytes tx_bytes_dict)
           in ret (ready_for_signing tx_hex
                      ''Unstake transaction built. Sign with your wallet to execute.''))))
          ''Failed to build unstake transaction: '')"

definition execute_transfer ::
  "executor_services \<Rightarrow> ExecuteTransactionRequest \<Rightarrow> pyval \<Rightarrow> (exec_call, TransactionResult) eff" where
  "execute_transfer sv request private_key =
     (let tx_data = exec_transaction_data request;
          recipient = dict_get tx_data ''recipient'' PNone;
          amount = dict_get tx_data ''amount'' PNone;
          token = dict_get tx_data ''token'' (PStr ''SUI'')
      in
      if \<not> truthy recipient then
        raise (HTTPException HTTP_400_BAD_REQUEST
                  [Lit ''Missing recipient address in transaction data''])
      else if \<not> truthy amount then
        raise (HTTPException HTTP_400_BAD_REQUEST [Lit ''Missing amount in transaction data''])
      else if truthy private_key then
        except_value_error
          (and_then (extern (WalletService private_key) (wallet_service sv private_key)) (\<lambda>wallet.
           and_then (pure (TokenType_of token)) (\<lambda>token_type.
           and_then (extern (WalletBuildAndExecuteTransfer private_key recipient amount token_type)
                    (wallet_build_and_execute_transfer sv private_key recipient amount token_type))
             (\<lambda>result.
           if success result then ret result
           else raise (HTTPException HTTP_500_INTERNAL_SERVER_ERROR
                          [Lit ''Transaction execution failed: '', Fmt (error_text result)])))))
          ''Wallet error: ''
      else
        except_value_error
          (and_then (pure (TokenType_of token)) (\<lambda>token_type.
           and_then (extern (BuildTransferTransaction (exec_user_address request) recipient amount
                           token_type)
                    (build_transfer_transaction sv (exec_user_address request) recipient amount
                       token_type)) (\<lambda>tx_bytes_dict.
           let tx_hex = hex (transaction_bytes tx_bytes_dict)
           in ret (ready_for_signing tx_hex
                      ''Transaction built successfully. Sign with your wallet to execute.''))))
          ''Failed to build transaction: '')"

definition execute_transaction ::
  "executor_services \<Rightarrow> ExecuteTransactionRequest \<Rightarrow> (exec_call, TransactionResult) eff" where
  "execute_transaction sv request =
     (let tx_data = exec_transaction_data request;
          act = dict_get tx_data ''action'' PNone;
          private_key = dict_get tx_data ''private_key'' PNone
      in
      try_except
        (if act = PStr ''stake_token'' then execute_stake sv request private_key
         else if act = PStr ''unstake_token'' then execute_unstake sv request private_key
         else if act = PStr ''transfer_token'' then execute_transfer sv request private_key
         else raise (HTTPException HTTP_400_BAD_REQUEST [Lit ''Unsupported action: '', Fmt act]))
        (reraise_http ''Internal server error: ''))"


section \<open>The contact endpoints\<close>

text \<open>
  Modelled from the spec: \<^verbatim>\<open>ContactRequest\<close> of \<^verbatim>\<open>models/schemas.py\<close> (spec, section 6).
  A contact record is the dictionary with the keys \<^verbatim>\<open>name\<close>, \<^verbatim>\<open>address\<close> and
  \<^verbatim>\<open>notes\<close> that \<^verbatim>\<open>save_contact\<close> appends; a \<^verbatim>\<open>ContactInfo\<close> object is represented by
  its \<^verbatim>\<open>model_dump()\<close>, the same dictionary.
\<close>

record ContactRequest =
  user_address :: string
  contact_name :: "string option"
  contact_address :: "string option"
  contact_notes :: "string option"

definition opt_val :: "string option \<Rightarrow> pyval" where
  "opt_val x = (case x of None \<Rightarrow> PNone | Some s \<Rightarrow> PStr s)"

datatype vault_call =
    DownloadBlob string
  | UploadBlob bytes
  | DecryptBulkContacts string bytes
  | EncryptBulkContacts string "pydict list"

text \<open>
  The blob store is a collaborator with a state of its own, of some type \<open>'w\<close>: a download
  reads it, an upload answers with the identifier of the blob and changes it. The router's own
  state is the module-level dictionary \<^verbatim>\<open>contact_storage\<close>, from user address to blob
  identifier.
\<close>

record 'w vault_services =
  download_blob :: "'w \<Rightarrow> string \<Rightarrow> exn + bytes"
  upload_blob :: "'w \<Rightarrow> bytes \<Rightarrow> (exn + string) \<times> 'w"
  decrypt_bulk_contacts :: "string \<Rightarrow> bytes \<Rightarrow> exn + pydict list"
  encrypt_bulk_contacts :: "string \<Rightarrow> pydict list \<Rightarrow> exn + bytes"

type_synonym contact_storage = "string \<rightharpoonup> string"

text \<open>
  \<^verbatim>\<open>save_contact\<close> has the single handler \<^verbatim>\<open>except Exception\<close>, which also catches the
  \<^verbatim>\<open>HTTPException\<close> raised inside the \<^verbatim>\<open>try\<close> block.
\<close>

definition except_all :: "string \<Rightarrow> exn \<Rightarrow> ('c, 'a) eff" where
  "except_all prefix e = raise (HTTPException HTTP_500_INTERNAL_SERVER_ERROR [Lit prefix, StrExn e])"

definition save_contact ::
  "'w vault_services \<Rightarrow> ContactRequest \<Rightarrow> contact_storage \<times> 'w \<Rightarrow>
     (vault_call, pydict) eff \<times> (contact_storage \<times> 'w)" where
  "save_contact sv request st =
     (let storage = fst st; w = snd st;
          new_contact = [(''name'', opt_val (contact_name request)),
                         (''address'', opt_val (contact_address request)),
                         (''notes'', opt_val (contact_notes request))]
      in
      if \<not> truthy (opt_val (contact_name request)) \<or> \<not> truthy (opt_val (contact_address request))
      then
        (try_except
           (raise (HTTPException HTTP_400_BAD_REQUEST [Lit ''Contact name and address are required'']))
           (except_all ''Error saving contact: ''),
         st)
      else
        (let encrypted_blob =
               (case storage (user_address request) of
                  Some blob_id \<Rightarrow>
                    and_then (extern (DownloadBlob blob_id) (download_blob sv w blob_id))
                      (\<lambda>encrypted_data.
                    and_then (extern (DecryptBulkContacts (user_address request) encrypted_data)
                                (decrypt_bulk_contacts sv (user_address request) encrypted_data))
                      (\<lambda>existing_contacts.
                    extern (EncryptBulkContacts (user_address request)
                              (existing_contacts @ [new_contact]))
                      (encrypt_bulk_contacts sv (user_address request)
                         (existing_contacts @ [new_contact]))))
                | None \<Rightarrow>
                    extern (EncryptBulkContacts (user_address request) [new_contact])
                      (encrypt_bulk_contacts sv (user_address request) [new_contact]))
         in
         case snd encrypted_blob of
           Inl e \<Rightarrow>
             (try_except (fst encrypted_blob, Inl e) (except_all ''Error saving contact: ''), st)
         | Inr blob \<Rightarrow>
             (let upload_result = upload_blob sv w blob; w' = snd upload_result
              in
              case fst upload_result of
                Inl e \<Rightarrow>
                  (try_except (fst encrypted_blob @ [UploadBlob blob], Inl e)
                     (except_all ''Error saving contact: ''),
                   (storage, w'))
              | Inr blob_id \<Rightarrow>
                  ((fst encrypted_blob @ [UploadBlob blob],
                    Inr [(''message'', PStr ''Contact saved successfully''),
                         (''blob_id'', PStr blob_id)]),
                   (storage(user_address request \<mapsto> blob_id), w')))))"

definition list_contacts ::
  "'w vault_services \<Rightarrow> string \<Rightarrow> contact_storage \<times> 'w \<Rightarrow> (vault_call, pydict) eff" where
  "list_contacts sv user st =
     try_except
       (case fst st user of
          None \<Rightarrow> ret [(''contacts'', PList [])]
        | Some blob_id \<Rightarrow>
            and_then (extern (DownloadBlob blob_id) (download_blob sv (snd st) blob_id))
              (\<lambda>encrypted_data.
            and_then (extern (DecryptBulkContacts user encrypted_data)
                        (decrypt_bulk_contacts sv user encrypted_data))
              (\<lambda>contacts. ret [(''contacts'', PList (map PDict contacts))])))
       (except_all ''Error retrieving contacts: '')"


section \<open>The exact conversion the spec asks for\<close>

text \<open>
  The spec's words for amount normalization: the decimal amount \<open>a\<close>, scaled by \<open>10^d\<close>
  and truncated beyond \<open>d\<close> fractional digits, as an integer string. A decimal amount
  string is a \<^verbatim>\<open>number\<close> of the grammar above.
\<close>

definition spec_smallest_units :: "string \<Rightarrow> nat \<Rightarrow> string option" where
  "spec_smallest_units a d =
     (case number a of
        Some (m, k, []) \<Rightarrow> Some (str_int ((m * 10 ^ d) div 10 ^ k))
      | _ \<Rightarrow> None)"


section \<open>Sample collaborators\<close>

text \<open>
  Collaborators that always answer, used to run the endpoints on concrete requests: the
  classifier answers with a given intent, the dry-run builder with a given risk level, the
  gateway with a given staked amount and address book.
\<close>

definition sample_intent :: "IntentAction \<Rightarrow> pydict \<Rightarrow> Intent" where
  "sample_intent a d =
     \<lparr>action = a, parsed_data = d, confidence = 9 / 10, clarification_question = None\<rparr>"

definition sample_services ::
  "Intent \<Rightarrow> RiskLevel \<Rightarrow> pyval \<Rightarrow> AddressBook option \<Rightarrow> services" where
  "sample_services i risk staked book =
     \<lparr>parse_intent = (\<lambda>m ua. Inr i),
      get_balance = (\<lambda>a t. Inr \<lparr>balance = PStr ''5000000000'',
                                 balance_formatted = PStr ''5.0'', balance_token = t\<rparr>),
      get_user_stake = (\<lambda>a t. Inr \<lparr>staked_amount = staked,
                                    staked_amount_formatted = PStr ''2.0'', stake_token = t\<rparr>),
      estimate_gas_fee = (\<lambda>b. Inr (PFloat (Finite (1 / 1024)))),
      generate_dry_run_summary =
        (\<lambda>a d b g. Inr \<lparr>action_description = ''move tokens'', risk_level = risk,
                          estimated_gas_fee = g\<rparr>),
      get_user_address_book = (\<lambda>a. Inr book),
      build_create_address_book_tx =
        (\<lambda>a. Inr [(''transaction_type'', PStr ''move_call''),
                   (''target'', PStr ''address_book::create'')]),
      encrypt_contact = (\<lambda>u n a k. Inr [1, 2, 3]),
      build_add_contact_tx =
        (\<lambda>s b k e n t. Inr [(''transaction_type'', PStr ''move_call''),
                             (''target'', PStr ''address_book::add_contact'')]),
      urandom16 = replicate 16 0,
      time_now = 1700000000\<rparr>"

definition sample_request :: ChatRequest where
  "sample_request =
     \<lparr>chat_message = ''do it'', chat_user_address = Some ''0xabc'', chat_context = None\<rparr>"


text \<open>
  A gateway that builds fixed bytes and a wallet signer that accepts one key, whose address
  differs from the address the sample request carries.
\<close>

definition sample_executor :: executor_services where
  "sample_executor =
     \<lparr>wallet_service =
        (\<lambda>k. if k = PStr ''suiprivkey1'' then Inr ()
              else Inl (ValueError [Lit ''Invalid private key''])),
      wallet_get_address = (\<lambda>k. Inr ''0xwallet''),
      wallet_execute_transaction =
        (\<lambda>k b. Inr \<lparr>success = True, transaction_digest = Some ''digest01'',
                      effects = None, error = None\<rparr>),
      wallet_build_and_execute_transfer =
        (\<lambda>k r a t. Inr \<lparr>success = True, transaction_digest = Some ''digest02'',
                          effects = None, error = None\<rparr>),
      build_stake_transaction = (\<lambda>s a t. Inr \<lparr>transaction_bytes = [0x01, 0xAB]\<rparr>),
      build_unstake_transaction = (\<lambda>s a t. Inr \<lparr>transaction_bytes = [0x02, 0xCD]\<rparr>),
      build_transfer_transaction = (\<lambda>s r a t. Inr \<lparr>transaction_bytes = [0x03, 0xEF]\<rparr>)\<rparr>"

definition sample_execute_request :: "pydict \<Rightarrow> ExecuteTransactionRequest" where
  "sample_execute_request d = \<lparr>exec_user_address = ''0xabc'', exec_transaction_data = d\<rparr>"


section \<open>Sequences of saves\<close>

text \<open>The record that \<^verbatim>\<open>save_contact\<close> adds for a request.\<close>

definition contact_record :: "ContactRequest \<Rightarrow> pydict" where
  "contact_record request =
     [(''name'', opt_val (contact_name request)),
      (''address'', opt_val (contact_address request)),
      (''notes'', opt_val (contact_notes request))]"

text \<open>
  A sequence of calls of \<^verbatim>\<open>save_contact\<close>, one after the other: the state after the last
  one, and the requests that succeeded, in order. A call that raised is followed by the next
  call, in the state it left.
\<close>

fun save_all ::
  "'w vault_services \<Rightarrow> ContactRequest list \<Rightarrow> contact_storage \<times> 'w \<Rightarrow>
     (contact_storage \<times> 'w) \<times> ContactRequest list" where
  "save_all sv [] st = (st, [])"
| "save_all sv (r # rs) st =
     (let res = save_contact sv r st;
          rest = save_all sv rs (snd res)
      in (fst rest, (case snd (fst res) of Inl e \<Rightarrow> [] | Inr resp \<Rightarrow> [r]) @ snd rest))"

text \<open>The records a user saved with a sequence of requests, in order, repetitions included.\<close>

definition saved_records :: "string \<Rightarrow> ContactRequest list \<Rightarrow> pydict list" where
  "saved_records u rs = map contact_record (filter (\<lambda>r. user_address r = u) rs)"

text \<open>
  The blob a user's entry of \<^verbatim>\<open>contact_storage\<close> points to holds the records \<open>cs\<close>: it
  downloads and decrypts to them. A user without an entry holds no records.
\<close>

definition holds_records ::
  "'w vault_services \<Rightarrow> contact_storage \<times> 'w \<Rightarrow> string \<Rightarrow> pydict list \<Rightarrow> bool" where
  "holds_records sv st u cs =
     (case fst st u of
        None \<Rightarrow> cs = []
      | Some blob_id \<Rightarrow>
          (case download_blob sv (snd st) blob_id of
             Inl e \<Rightarrow> False
           | Inr b \<Rightarrow> decrypt_bulk_contacts sv u b = Inr cs))"

text \<open>
  The contracts of the two collaborators of the vault (spec, sections 1 and 2): decryption
  inverts encryption for the same user; a blob that was uploaded can be downloaded under the
  identifier the upload returned, and an upload leaves every blob that could be downloaded
  before as it was.
\<close>

definition vault_contract :: "'w vault_services \<Rightarrow> bool" where
  "vault_contract sv \<longleftrightarrow>
     (\<forall>u cs b. encrypt_bulk_contacts sv u cs = Inr b \<longrightarrow> decrypt_bulk_contacts sv u b = Inr cs) \<and>
     (\<forall>w b blob_id. fst (upload_blob sv w b) = Inr blob_id \<longrightarrow>
                    download_blob sv (snd (upload_blob sv w b)) blob_id = Inr b) \<and>
     (\<forall>w b blob_id b0. download_blob sv w blob_id = Inr b0 \<longrightarrow>
                       download_blob sv (snd (upload_blob sv w b)) blob_id = Inr b0)"

text \<open>
  A sample vault. Its cipher knows two contacts and writes one byte for each; its blob store
  keeps the blobs in a list under the hexadecimal encoding of their content.
\<close>

definition alice_request :: ContactRequest where
  "alice_request =
     \<lparr>user_address = ''0xabc'', contact_name = Some ''Alice'',
      contact_address = Some ''0xa11ce'', contact_notes = None\<rparr>"

definition bob_request :: ContactRequest where
  "bob_request =
     \<lparr>user_address = ''0xabc'', contact_name = Some ''Bob'',
      contact_address = Some ''0xb0b'', contact_notes = Some ''friend''\<rparr>"

definition carol_request :: ContactRequest where
  "carol_request =
     \<lparr>user_address = ''0xdef'', contact_name = Some ''Bob'',
      contact_address = Some ''0xb0b'', contact_notes = Some ''friend''\<rparr>"

definition dave_request :: ContactRequest where
  "dave_request =
     \<lparr>user_address = ''0xabc'', contact_name = Some ''Dave'',
      contact_address = Some ''0xda7e'', contact_notes = None\<rparr>"

definition encode_contact :: "pydict \<Rightarrow> 8 word option" where
  "encode_contact c =
     (if c = contact_record alice_request then Some 1
      else if c = contact_record bob_request then Some 2
      else None)"

definition decode_contact :: "8 word \<Rightarrow> pydict option" where
  "decode_contact b =
     (if b = 1 then Some (contact_record alice_request)
      else if b = 2 then Some (contact_record bob_request)
      else None)"

fun encode_all :: "pydict list \<Rightarrow> bytes option" where
  "encode_all [] = Some []"
| "encode_all (c # cs) =
     (case encode_contact c of
        None \<Rightarrow> None
      | Some b \<Rightarrow> (case encode_all cs of None \<Rightarrow> None | Some bs \<Rightarrow> Some (b # bs)))"

fun decode_all :: "bytes \<Rightarrow> pydict list option" where
  "decode_all [] = Some []"
| "decode_all (b # bs) =
     (case decode_contact b of
        None \<Rightarrow> None
      | Some c \<Rightarrow> (case decode_all bs of None \<Rightarrow> None | Some cs \<Rightarrow> Some (c # cs)))"

definition sample_vault :: "(string \<times> bytes) list vault_services" where
  "sample_vault =
     \<lparr>download_blob =
        (\<lambda>w blob_id. case map_of w blob_id of
                        Some b \<Rightarrow> Inr b
                      | None \<Rightarrow> Inl (OtherError ''NotFound'' [Lit ''no such blob''])),
      upload_blob =
        (\<lambda>w b. case map_of w (hex b) of
                  None \<Rightarrow> (Inr (hex b), (hex b, b) # w)
                | Some b' \<Rightarrow> if b' = b then (Inr (hex b), w)
                             else (Inl (OtherError ''Conflict'' [Lit ''identifier in use'']), w)),
      decrypt_bulk_contacts =
        (\<lambda>u b. case decode_all b of
                  Some cs \<Rightarrow> Inr cs
                | None \<Rightarrow> Inl (ValueError [Lit ''cannot decrypt''])),
      encrypt_bulk_contacts =
        (\<lambda>u cs. case encode_all cs of
                   Some b \<Rightarrow> Inr b
                 | None \<Rightarrow> Inl (ValueError [Lit ''cannot encrypt'']))\<rparr>"


section \<open>Helper lemmas\<close>

lemma and_then_pure_Inr: "and_then (pure (Inr x)) f = f x"
  by (simp add: and_then_def pure_def)

lemma and_then_pure_Inl: "and_then (pure (Inl e)) f = ([], Inl e)"
  by (simp add: and_then_def pure_def)

lemma and_then_extern_Inr: "and_then (extern c (Inr x)) f = (c # fst (f x), snd (f x))"
  by (simp add: and_then_def extern_def)

lemma and_then_extern_Inl: "and_then (extern c (Inl e)) f = ([c], Inl e)"
  by (simp add: and_then_def extern_def)

lemma fst_ret: "fst (ret x) = []"
  by (simp add: ret_def)

lemma snd_ret: "snd (ret x) = Inr x"
  by (simp add: ret_def)

lemma try_except_Inr: "try_except (l, Inr x) h = (l, Inr x)"
  by (simp add: try_except_def)

lemma try_except_reraise_http:
  "try_except (l, Inl (HTTPException st d)) (reraise_http p) = (l, Inl (HTTPException st d))"
  by (simp add: try_except_def reraise_http_def raise_def)

lemma risk_value_high: "(risk_value r \<noteq> ''high'') = (r \<noteq> High)"
  by (cases r) simp_all


section \<open>Amount normalization is not exact\<close>

text \<open>
  C1 (the conversion of a decimal amount to smallest units is exact). The router converts
  through a binary64 float. For the amount \<^verbatim>\<open>"1.001"\<close> and the exponent 9 of the native
  token the float nearest to 1.001 lies below it, the product with \<open>10^9\<close> rounds to
  \<open>1000999999.99999988\<close>, and the truncation gives \<open>1000999999\<close>, one unit less than the
  exact \<open>1001000000\<close>.
\<close>

theorem amount_in_smallest_inexact:
  "amount_in_smallest (PStr ''1.001'') 9 = Inr ''1000999999'' \<and>
   spec_smallest_units ''1.001'' 9 = Some ''1001000000''"
  by code_simp


section \<open>The executor\<close>

lemmas exec_defs = execute_transaction_def execute_stake_def execute_unstake_def
  execute_transfer_def

lemma except_value_error_Inr: "except_value_error (l, Inr x) p = (l, Inr x)"
  by (simp add: except_value_error_def)

lemma fst_try_except_reraise_http: "fst (try_except m (reraise_http p)) = fst m"
  by (auto simp add: try_except_def reraise_http_def raise_def split: sum.splits exn.splits)

lemma fst_except_value_error: "fst (except_value_error m p) = fst m"
  by (auto simp add: except_value_error_def split: sum.splits exn.splits)

lemma fst_and_then_extern:
  "fst (and_then (extern c r) f) = c # (case r of Inl e \<Rightarrow> [] | Inr x \<Rightarrow> fst (f x))"
  by (simp add: and_then_def extern_def split: sum.splits)

lemma fst_and_then_pure:
  "fst (and_then (pure r) f) = (case r of Inl e \<Rightarrow> [] | Inr x \<Rightarrow> fst (f x))"
  by (simp add: and_then_def pure_def split: sum.splits)

lemma fst_raise: "fst (raise e) = []"
  by (simp add: raise_def)

lemmas fst_eff = fst_except_value_error fst_and_then_extern fst_and_then_pure fst_raise fst_ret

lemma execute_stake_server_calls:
  "truthy key \<Longrightarrow> c \<in> set (fst (execute_stake sv request key)) \<Longrightarrow>
   (c = BuildStakeTransaction s a t \<longrightarrow> wallet_get_address sv key = Inr s) \<and>
   c \<noteq> BuildUnstakeTransaction s a t"
  by (auto simp add: execute_stake_def Let_def fst_eff split: if_splits sum.splits)

lemma execute_unstake_server_calls:
  "truthy key \<Longrightarrow> c \<in> set (fst (execute_unstake sv request key)) \<Longrightarrow>
   (c = BuildUnstakeTransaction s a t \<longrightarrow> wallet_get_address sv key = Inr s) \<and>
   c \<noteq> BuildStakeTransaction s a t"
  by (auto simp add: execute_unstake_def Let_def fst_eff split: if_splits sum.splits)

lemma execute_stake_client_calls:
  "\<not> truthy key \<Longrightarrow> c \<in> set (fst (execute_stake sv request key)) \<Longrightarrow>
   (c = BuildStakeTransaction s a t \<longrightarrow> s = exec_user_address request) \<and>
   c \<noteq> BuildUnstakeTransaction s a t"
  by (auto simp add: execute_stake_def Let_def fst_eff split: if_splits sum.splits)

lemma execute_unstake_client_calls:
  "\<not> truthy key \<Longrightarrow> c \<in> set (fst (execute_unstake sv request key)) \<Longrightarrow>
   (c = BuildUnstakeTransaction s a t \<longrightarrow> s = exec_user_address request) \<and>
   c \<noteq> BuildStakeTransaction s a t"
  by (auto simp add: execute_unstake_def Let_def fst_eff split: if_splits sum.splits)

lemma execute_stake_server_builds:
  "truthy key \<Longrightarrow> truthy (dict_get (exec_transaction_data request) ''amount'' PNone) \<Longrightarrow>
   wallet_service sv key = Inr () \<Longrightarrow> wallet_get_address sv key = Inr addr \<Longrightarrow>
   TokenType_of (dict_get (exec_transaction_data request) ''token'' (PStr ''SUI'')) = Inr t \<Longrightarrow>
   BuildStakeTransaction addr (dict_get (exec_transaction_data request) ''amount'' PNone) t
     \<in> set (fst (execute_stake sv request key))"
  by (simp add: execute_stake_def Let_def fst_eff)

lemma execute_unstake_server_builds:
  "truthy key \<Longrightarrow> truthy (dict_get (exec_transaction_data request) ''amount'' PNone) \<Longrightarrow>
   wallet_service sv key = Inr () \<Longrightarrow> wallet_get_address sv key = Inr addr \<Longrightarrow>
   TokenType_of (dict_get (exec_transaction_data request) ''token'' (PStr ''SUI'')) = Inr t \<Longrightarrow>
   BuildUnstakeTransaction addr (dict_get (exec_transaction_data request) ''amount'' PNone) t
     \<in> set (fst (execute_unstake sv request key))"
  by (simp add: execute_unstake_def Let_def fst_eff)

lemma fst_execute_transaction:
  "fst (execute_transaction sv request) =
     (let act = dict_get (exec_transaction_data request) ''action'' PNone;
          key = dict_get (exec_transaction_data request) ''private_key'' PNone
      in if act = PStr ''stake_token'' then fst (execute_stake sv request key)
         else if act = PStr ''unstake_token'' then fst (execute_unstake sv request key)
         else if act = PStr ''transfer_token'' then fst (execute_transfer sv request key)
         else [])"
  by (simp add: execute_transaction_def Let_def fst_try_except_reraise_http fst_raise)

text \<open>
  C7 (validation before either path). When the action is not one of the three supported ones,
  or the amount is missing, or the recipient of a transfer is missing, the executor answers
  with HTTP 400 and has called neither the gateway nor the wallet signer: the list of its calls
  is empty. A field is missing when it is absent, \<^verbatim>\<open>None\<close> or empty, which is what
  \<^verbatim>\<open>not amount\<close> tests.
\<close>

theorem execute_rejects_before_any_call:
  assumes "dict_get (exec_transaction_data request) ''action'' PNone
             \<notin> {PStr ''stake_token'', PStr ''unstake_token'', PStr ''transfer_token''}
           \<or> \<not> truthy (dict_get (exec_transaction_data request) ''amount'' PNone)
           \<or> (dict_get (exec_transaction_data request) ''action'' PNone = PStr ''transfer_token''
              \<and> \<not> truthy (dict_get (exec_transaction_data request) ''recipient'' PNone))"
  shows "\<exists>detail. execute_transaction sv request =
           ([], Inl (HTTPException HTTP_400_BAD_REQUEST detail))"
  using assms
  by (auto simp add: exec_defs Let_def raise_def try_except_reraise_http)

theorem execute_rejects_before_any_call_witness:
  "(\<exists>detail. execute_transaction sample_executor
               (sample_execute_request [(''action'', PStr ''swap_token''), (''amount'', PStr ''5'')]) =
             ([], Inl (HTTPException HTTP_400_BAD_REQUEST detail))) \<and>
   (\<exists>detail. execute_transaction sample_executor
               (sample_execute_request
                  [(''action'', PStr ''stake_token''), (''private_key'', PStr ''suiprivkey1'')]) =
             ([], Inl (HTTPException HTTP_400_BAD_REQUEST detail))) \<and>
   (\<exists>detail. execute_transaction sample_executor
               (sample_execute_request
                  [(''action'', PStr ''transfer_token''), (''amount'', PStr ''5''),
                   (''recipient'', PStr [])]) =
             ([], Inl (HTTPException HTTP_400_BAD_REQUEST detail)))"
proof (intro conjI)
  show "\<exists>detail. execute_transaction sample_executor
               (sample_execute_request [(''action'', PStr ''swap_token''), (''amount'', PStr ''5'')]) =
             ([], Inl (HTTPException HTTP_400_BAD_REQUEST detail))"
    by (rule execute_rejects_before_any_call)
       (simp add: sample_execute_request_def dict_get_def)
  show "\<exists>detail. execute_transaction sample_executor
               (sample_execute_request
                  [(''action'', PStr ''stake_token''), (''private_key'', PStr ''suiprivkey1'')]) =
             ([], Inl (HTTPException HTTP_400_BAD_REQUEST detail))"
    by (rule execute_rejects_before_any_call)
       (simp add: sample_execute_request_def dict_get_def)
  show "\<exists>detail. execute_transaction sample_executor
               (sample_execute_request
                  [(''action'', PStr ''transfer_token''), (''amount'', PStr ''5''),
                   (''recipient'', PStr [])]) =
             ([], Inl (HTTPException HTTP_400_BAD_REQUEST detail))"
    by (rule execute_rejects_before_any_call)
       (simp add: sample_execute_request_def dict_get_def)
qed

text \<open>
  C6 (client-signing path). Without a private key (absent, \<^verbatim>\<open>None\<close> or empty), with the
  amount present (and the recipient, for a transfer), a valid token and a gateway that builds
  the transaction, the executor returns a result with \<^verbatim>\<open>success = True\<close>, whose effects
  have the status \<^verbatim>\<open>ready_for_signing\<close> and the hexadecimal encoding of the built bytes. The
  only call it made is the one to the gateway's builder, with the request's address as sender:
  the wallet signer is not called.
\<close>

theorem client_signing_returns_unsigned_bytes:
  fixes request :: ExecuteTransactionRequest and sv :: executor_services
  defines "d \<equiv> exec_transaction_data request"
  defines "act \<equiv> dict_get d ''action'' PNone"
  defines "amount \<equiv> dict_get d ''amount'' PNone"
  defines "recipient \<equiv> dict_get d ''recipient'' PNone"
  defines "sender \<equiv> exec_user_address request"
  defines "signing built r \<equiv>
             success r \<and>
             (\<exists>e. effects r = Some e \<and>
                  map_of e ''status'' = Some (PStr ''ready_for_signing'') \<and>
                  map_of e ''transaction_bytes'' = Some (PStr (hex (transaction_bytes built))))"
  assumes no_key: "\<not> truthy (dict_get d ''private_key'' PNone)"
      and has_amount: "truthy amount"
      and token_ok: "TokenType_of (dict_get d ''token'' (PStr ''SUI'')) = Inr t"
  shows "(act = PStr ''stake_token'' \<and> build_stake_transaction sv sender amount t = Inr built \<longrightarrow>
            (\<exists>r. execute_transaction sv request =
                    ([BuildStakeTransaction sender amount t], Inr r) \<and> signing built r)) \<and>
         (act = PStr ''unstake_token'' \<and> build_unstake_transaction sv sender amount t = Inr built \<longrightarrow>
            (\<exists>r. execute_transaction sv request =
                    ([BuildUnstakeTransaction sender amount t], Inr r) \<and> signing built r)) \<and>
         (act = PStr ''transfer_token'' \<and> truthy recipient \<and>
          build_transfer_transaction sv sender recipient amount t = Inr built \<longrightarrow>
            (\<exists>r. execute_transaction sv request =
                    ([BuildTransferTransaction sender recipient amount t], Inr r) \<and> signing built r))"
  using no_key has_amount token_ok
  unfolding d_def act_def amount_def recipient_def sender_def signing_def
  by (simp add: exec_defs Let_def and_then_pure_Inr and_then_extern_Inr fst_ret snd_ret
        except_value_error_Inr try_except_Inr ready_for_signing_def)

theorem client_signing_returns_unsigned_bytes_witness:
  "\<exists>r. execute_transaction sample_executor
          (sample_execute_request
             [(''action'', PStr ''transfer_token''), (''recipient'', PStr ''0xdef''),
              (''amount'', PStr ''100000000000''), (''token'', PStr ''SUI'')]) =
        ([BuildTransferTransaction ''0xabc'' (PStr ''0xdef'') (PStr ''100000000000'') SUI], Inr r) \<and>
        success r \<and>
        (\<exists>e. effects r = Some e \<and>
             map_of e ''status'' = Some (PStr ''ready_for_signing'') \<and>
             map_of e ''transaction_bytes'' = Some (PStr ''03ef''))"
proof -
  let ?r = "sample_execute_request
              [(''action'', PStr ''transfer_token''), (''recipient'', PStr ''0xdef''),
               (''amount'', PStr ''100000000000''), (''token'', PStr ''SUI'')]"
  have h1: "\<not> truthy (dict_get (exec_transaction_data ?r) ''private_key'' PNone)"
    and h2: "truthy (dict_get (exec_transaction_data ?r) ''amount'' PNone)"
    and h3: "TokenType_of (dict_get (exec_transaction_data ?r) ''token'' (PStr ''SUI'')) = Inr SUI"
    by (simp_all add: sample_execute_request_def dict_get_def TokenType_of_def)
  have hx: "hex [0x03, 0xEF] = ''03ef''"
    by code_simp
  from client_signing_returns_unsigned_bytes
         [OF h1 h2 h3, of sample_executor "\<lparr>transaction_bytes = [0x03, 0xEF]\<rparr>"]
  show ?thesis
    by (simp add: sample_execute_request_def dict_get_def sample_executor_def hx)
qed

text \<open>
  C10 (the sender of a server-signed stake or unstake). With a private key, every call to the
  gateway's stake or unstake builder has as sender the address the wallet signer derives from
  that key, and the builder is called with it once the wallet is constructed and the token is
  valid. Without a private key, the sender of every such call is \<^verbatim>\<open>request.user_address\<close>.
\<close>

theorem server_signed_sender_is_wallet_address:
  fixes request :: ExecuteTransactionRequest and sv :: executor_services
  defines "d \<equiv> exec_transaction_data request"
  defines "act \<equiv> dict_get d ''action'' PNone"
  defines "amount \<equiv> dict_get d ''amount'' PNone"
  defines "key \<equiv> dict_get d ''private_key'' PNone"
  defines "calls \<equiv> fst (execute_transaction sv request)"
  assumes staking: "act = PStr ''stake_token'' \<or> act = PStr ''unstake_token''"
  shows "(truthy key \<longrightarrow>
            (\<forall>s a t. BuildStakeTransaction s a t \<in> set calls \<or>
                     BuildUnstakeTransaction s a t \<in> set calls \<longrightarrow>
                     wallet_get_address sv key = Inr s)) \<and>
         (\<not> truthy key \<longrightarrow>
            (\<forall>s a t. BuildStakeTransaction s a t \<in> set calls \<or>
                     BuildUnstakeTransaction s a t \<in> set calls \<longrightarrow>
                     s = exec_user_address request)) \<and>
         (truthy key \<and> truthy amount \<and> wallet_service sv key = Inr () \<and>
          wallet_get_address sv key = Inr addr \<and>
          TokenType_of (dict_get d ''token'' (PStr ''SUI'')) = Inr t \<longrightarrow>
            (if act = PStr ''stake_token'' then BuildStakeTransaction addr amount t
             else BuildUnstakeTransaction addr amount t) \<in> set calls)"
proof (intro conjI impI allI)
  fix s a t
  assume k: "truthy key"
    and c: "BuildStakeTransaction s a t \<in> set calls \<or> BuildUnstakeTransaction s a t \<in> set calls"
  from staking show "wallet_get_address sv key = Inr s"
  proof
    assume "act = PStr ''stake_token''"
    then have "calls = fst (execute_stake sv request key)"
      by (simp add: calls_def fst_execute_transaction act_def d_def key_def)
    with c k execute_stake_server_calls [of key _ sv request s a t] show ?thesis
      by blast
  next
    assume "act = PStr ''unstake_token''"
    then have "calls = fst (execute_unstake sv request key)"
      by (simp add: calls_def fst_execute_transaction act_def d_def key_def)
    with c k execute_unstake_server_calls [of key _ sv request s a t] show ?thesis
      by blast
  qed
next
  fix s a t
  assume k: "\<not> truthy key"
    and c: "BuildStakeTransaction s a t \<in> set calls \<or> BuildUnstakeTransaction s a t \<in> set calls"
  from staking show "s = exec_user_address request"
  proof
    assume "act = PStr ''stake_token''"
    then have "calls = fst (execute_stake sv request key)"
      by (simp add: calls_def fst_execute_transaction act_def d_def key_def)
    with c k execute_stake_client_calls [of key _ sv request s a t] show ?thesis
      by blast
  next
    assume "act = PStr ''unstake_token''"
    then have "calls = fst (execute_unstake sv request key)"
      by (simp add: calls_def fst_execute_transaction act_def d_def key_def)
    with c k execute_unstake_client_calls [of key _ sv request s a t] show ?thesis
      by blast
  qed
next
  assume h: "truthy key \<and> truthy amount \<and> wallet_service sv key = Inr () \<and>
          wallet_get_address sv key = Inr addr \<and>
          TokenType_of (dict_get d ''token'' (PStr ''SUI'')) = Inr t"
  from staking
  show "(if act = PStr ''stake_token'' then BuildStakeTransaction addr amount t
         else BuildUnstakeTransaction addr amount t) \<in> set calls"
  proof
    assume a: "act = PStr ''stake_token''"
    then have "calls = fst (execute_stake sv request key)"
      by (simp add: calls_def fst_execute_transaction act_def d_def key_def)
    with a h execute_stake_server_builds [of key request sv addr t] show ?thesis
      by (simp add: amount_def d_def)
  next
    assume a: "act = PStr ''unstake_token''"
    then have "calls = fst (execute_unstake sv request key)"
      by (simp add: calls_def fst_execute_transaction act_def d_def key_def)
    with a h execute_unstake_server_builds [of key request sv addr t] show ?thesis
      by (simp add: amount_def d_def)
  qed
qed

theorem server_signed_sender_witness:
  "BuildStakeTransaction ''0xwallet'' (PStr ''5000000000'') SUI
     \<in> set (fst (execute_transaction sample_executor
                     (sample_execute_request
                        [(''action'', PStr ''stake_token''), (''amount'', PStr ''5000000000''),
                         (''token'', PStr ''SUI''), (''private_key'', PStr ''suiprivkey1'')]))) \<and>
   wallet_get_address sample_executor (PStr ''suiprivkey1'') = Inr ''0xwallet'' \<and>
   BuildUnstakeTransaction ''0xabc'' (PStr ''7'') SUI
     \<in> set (fst (execute_transaction sample_executor
                     (sample_execute_request
                        [(''action'', PStr ''unstake_token''), (''amount'', PStr ''7''),
                         (''token'', PStr ''SUI'')]))) \<and>
   exec_user_address
     (sample_execute_request
        [(''action'', PStr ''unstake_token''), (''amount'', PStr ''7''),
         (''token'', PStr ''SUI'')]) = ''0xabc''"
proof -
  let ?r1 = "sample_execute_request
               [(''action'', PStr ''stake_token''), (''amount'', PStr ''5000000000''),
                (''token'', PStr ''SUI''), (''private_key'', PStr ''suiprivkey1'')]"
  let ?r2 = "sample_execute_request
               [(''action'', PStr ''unstake_token''), (''amount'', PStr ''7''),
                (''token'', PStr ''SUI'')]"
  have a1: "dict_get (exec_transaction_data ?r1) ''action'' PNone = PStr ''stake_token''"
    by (simp add: sample_execute_request_def dict_get_def)
  have a2: "dict_get (exec_transaction_data ?r2) ''action'' PNone = PStr ''stake_token'' \<or>
            dict_get (exec_transaction_data ?r2) ''action'' PNone = PStr ''unstake_token''"
    by (simp add: sample_execute_request_def dict_get_def)
  have k1: "dict_get (exec_transaction_data ?r1) ''private_key'' PNone = PStr ''suiprivkey1''"
    and m1: "dict_get (exec_transaction_data ?r1) ''amount'' PNone = PStr ''5000000000''"
    and t1: "TokenType_of (dict_get (exec_transaction_data ?r1) ''token'' (PStr ''SUI'')) = Inr SUI"
    and k2: "dict_get (exec_transaction_data ?r2) ''private_key'' PNone = PNone"
    by (simp_all add: sample_execute_request_def dict_get_def TokenType_of_def)
  have w: "wallet_service sample_executor (PStr ''suiprivkey1'') = Inr ()"
    by (simp add: sample_executor_def)
  have g: "wallet_get_address sample_executor (PStr ''suiprivkey1'') = Inr ''0xwallet''"
    by (simp add: sample_executor_def)
  have c2: "BuildUnstakeTransaction ''0xabc'' (PStr ''7'') SUI
              \<in> set (fst (execute_transaction sample_executor ?r2))"
    by code_simp
  note s1 = server_signed_sender_is_wallet_address
              [OF disjI1 [OF a1], of sample_executor "''0xwallet''" SUI]
  note s2 = server_signed_sender_is_wallet_address
              [OF a2, of sample_executor "''0xwallet''" SUI]
  from s1 have c1: "BuildStakeTransaction ''0xwallet'' (PStr ''5000000000'') SUI
                      \<in> set (fst (execute_transaction sample_executor ?r1))"
    by (simp add: a1 k1 m1 t1 w g)
  from s2 c2 have "''0xabc'' = exec_user_address ?r2"
    by (simp only: k2 truthy.simps) blast
  with c1 c2 g show ?thesis
    by simp
qed


section \<open>Writing an integer and reading it back\<close>

lemma digit_char:
  assumes "0 \<le> d" "d < 10"
  shows "is_digit (char_of (48 + d :: int))" "digit_val (char_of (48 + d :: int)) = d"
proof -
  have m: "(48 + d) mod 256 = 48 + d"
    using assms by simp
  then have i: "(of_char (char_of (48 + d)) :: int) = 48 + d"
    by (simp add: of_char_of)
  have "48 + d = int (nat (48 + d))"
    using assms by simp
  then have "char_of (48 + d) = char_of (nat (48 + d))"
    by (metis char_of_nat)
  moreover have "nat (48 + d) mod 256 = nat (48 + d)"
    using assms by simp
  ultimately have n: "(of_char (char_of (48 + d)) :: nat) = nat (48 + d)"
    by (simp add: of_char_of)
  have "48 \<le> nat (48 + d) \<and> nat (48 + d) \<le> 57"
    using assms by arith
  then show "is_digit (char_of (48 + d))"
    by (simp add: is_digit_def n Let_def)
  show "digit_val (char_of (48 + d)) = d"
    by (simp add: digit_val_def m)
qed

lemma str_digits_digits: "0 \<le> n \<Longrightarrow> c \<in> set (str_digits n) \<Longrightarrow> is_digit c"
proof (induction n rule: str_digits.induct)
  case (1 n)
  show ?case
  proof (cases "n < 10")
    case True
    with 1 show ?thesis
      by (simp add: str_digits.simps [of n] digit_char)
  next
    case False
    with 1 show ?thesis
      by (auto simp add: str_digits.simps [of n] digit_char)
  qed
qed

lemma str_digits_not_Nil: "str_digits n \<noteq> []"
  by (simp add: str_digits.simps [of n])

lemma digitpart_tail_digits:
  "\<forall>c \<in> set xs. is_digit c \<Longrightarrow>
   digitpart_tail v k xs = (foldl (\<lambda>a c. 10 * a + digit_val c) v xs, k + length xs, [])"
  by (induction v k xs rule: digitpart_tail.induct) simp_all

lemma foldl_str_digits:
  "0 \<le> n \<Longrightarrow> foldl (\<lambda>a c. 10 * a + digit_val c) 0 (str_digits n) = n"
proof (induction n rule: str_digits.induct)
  case (1 n)
  show ?case
  proof (cases "n < 10")
    case True
    with 1 show ?thesis
      by (simp add: str_digits.simps [of n] digit_char)
  next
    case False
    with 1 show ?thesis
      by (simp add: str_digits.simps [of n] digit_char)
  qed
qed

lemma digitpart_str_digits:
  assumes "0 \<le> n"
  shows "digitpart (str_digits n) = Some (n, length (str_digits n), [])"
proof -
  obtain c cs where s: "str_digits n = c # cs"
    using str_digits_not_Nil [of n] by (cases "str_digits n") auto
  have d: "\<forall>x \<in> set (c # cs). is_digit x"
    using str_digits_digits [OF assms] s by simp
  have "foldl (\<lambda>a c. 10 * a + digit_val c) 0 (c # cs) = n"
    using foldl_str_digits [OF assms] s by simp
  with d show ?thesis
    by (simp add: s digitpart_def digitpart_tail_digits)
qed

lemma digit_not_space: "is_digit c \<Longrightarrow> \<not> is_space c"
  by (auto simp add: is_digit_def is_space_def Let_def)

lemma strip_id:
  assumes "s \<noteq> []" "\<not> is_space (hd s)" "\<not> is_space (last s)"
  shows "strip s = s"
proof -
  from assms have a: "dropWhile is_space s = s"
    by (cases s) simp_all
  from assms have "dropWhile is_space (rev s) = rev s"
    by (cases "rev s") (simp_all add: hd_rev)
  with a show ?thesis
    by (simp add: strip_def)
qed

lemma strip_str_digits: "0 \<le> n \<Longrightarrow> strip (str_digits n) = str_digits n"
  by (rule strip_id)
     (simp_all add: str_digits_not_Nil digit_not_space str_digits_digits)

lemma int_of_str_str_int: "int_of_str (str_int n) = Inr n"
proof (cases "n < 0")
  case True
  then have p: "0 \<le> - n"
    by simp
  have m: "\<not> is_space (CHR ''-'')"
    by (simp add: is_space_def)
  have l: "\<not> is_space (last (str_digits (- n)))"
    using str_digits_digits [OF p] str_digits_not_Nil [of "- n"]
    by (simp add: digit_not_space)
  have "strip (CHR ''-'' # str_digits (- n)) = CHR ''-'' # str_digits (- n)"
    using m l by (intro strip_id) (simp_all add: str_digits_not_Nil)
  with True show ?thesis
    by (simp add: int_of_str_def str_int_def opt_sign_def digitpart_str_digits [OF p])
next
  case False
  then have p: "0 \<le> n"
    by simp
  obtain c cs where s: "str_digits n = c # cs"
    using str_digits_not_Nil [of n] by (cases "str_digits n") auto
  have "is_digit c"
    using str_digits_digits [OF p, of c] s by simp
  then have c: "c \<noteq> CHR ''-''" "c \<noteq> CHR ''+''"
    by (auto simp add: is_digit_def)
  have "opt_sign (str_digits n) = (False, str_digits n)"
    using c by (simp add: opt_sign_def s)
  with False show ?thesis
    by (simp add: int_of_str_def str_int_def strip_str_digits [OF p]
          digitpart_str_digits [OF p])
qed

lemma amount_in_smallest_is_integer:
  "amount_in_smallest v d = Inr a \<Longrightarrow> \<exists>n. a = str_int n"
  by (auto simp add: amount_in_smallest_def bindE_def split: sum.splits)


section \<open>The dispatcher\<close>

lemma snd_and_then_extern:
  "snd (and_then (extern c r) f) = (case r of Inl e \<Rightarrow> Inl e | Inr x \<Rightarrow> snd (f x))"
  by (simp add: and_then_def extern_def split: sum.splits)

lemma snd_and_then_pure:
  "snd (and_then (pure r) f) = (case r of Inl e \<Rightarrow> Inl e | Inr x \<Rightarrow> snd (f x))"
  by (simp add: and_then_def pure_def split: sum.splits)

lemma snd_raise: "snd (raise e) = Inl e"
  by (simp add: raise_def)

lemmas snd_eff = snd_and_then_extern snd_and_then_pure snd_raise snd_ret

lemma snd_try_except_reraise_http_Inr:
  "snd m = Inr x \<Longrightarrow> snd (try_except m (reraise_http p)) = Inr x"
  by (simp add: try_except_def)

lemma snd_try_except_reraise_http_Inr_iff:
  "snd (try_except m (reraise_http p)) = Inr x \<longleftrightarrow> snd m = Inr x"
  by (auto simp add: try_except_def reraise_http_def raise_def split: sum.splits exn.splits)

lemma fst_with_address:
  "fst (with_address ua detail k) =
     (case ua of None \<Rightarrow> [] | Some a \<Rightarrow> if a = [] then [] else fst (k a))"
  by (simp add: with_address_def raise_def split: option.splits)

lemma snd_with_address:
  "ua = Some a \<Longrightarrow> a \<noteq> [] \<Longrightarrow> snd (with_address ua detail k) = snd (k a)"
  by (simp add: with_address_def)

lemma in_set_case_sum:
  "c \<in> set (case r of Inl e \<Rightarrow> [] | Inr y \<Rightarrow> f y) \<longleftrightarrow> (\<exists>y. r = Inr y \<and> c \<in> set (f y))"
  by (cases r) simp_all

lemma in_set_case_option:
  "c \<in> set (case x of None \<Rightarrow> [] | Some a \<Rightarrow> f a) \<longleftrightarrow> (\<exists>a. x = Some a \<and> c \<in> set (f a))"
  by (cases x) simp_all

lemma in_set_if_nil:
  "c \<in> set (if p then [] else l) \<longleftrightarrow> \<not> p \<and> c \<in> set l"
  by simp

lemmas in_calls = fst_with_address fst_eff in_set_case_sum in_set_case_option in_set_if_nil

lemma fst_chat_endpoint:
  "parse_intent sv (chat_message request) (chat_user_address request) = Inr i \<Longrightarrow>
   fst (chat_endpoint sv request) =
     ParseIntent (chat_message request) (chat_user_address request)
       # fst (dispatch sv request i (action i))"
  by (simp add: chat_endpoint_def fst_try_except_reraise_http fst_and_then_extern)

lemma snd_chat_endpoint:
  "parse_intent sv (chat_message request) (chat_user_address request) = Inr i \<Longrightarrow>
   snd (chat_endpoint sv request) = Inr resp \<longleftrightarrow>
   snd (dispatch sv request i (action i)) = Inr resp"
  by (simp add: chat_endpoint_def snd_try_except_reraise_http_Inr_iff snd_and_then_extern)

lemma stake_branch_reached:
  assumes "GenerateDryRunSummary a d b g \<in> set (fst (stake_token_branch sv request i))"
  shows "\<exists>ua t bi am.
           chat_user_address request = Some ua \<and> ua \<noteq> [] \<and>
           TokenType_of (dict_get (parsed_data i) ''token'' (PStr ''SUI'')) = Inr t \<and>
           get_balance sv ua t = Inr bi \<and>
           amount_in_smallest (dict_get (parsed_data i) ''amount'' (PStr ''0'')) 9 = Inr am \<and>
           estimate_gas_fee sv [] = Inr g \<and>
           a = ''stake_token'' \<and> b = balance bi \<and>
           d = [(''recipient'', PStr ''Staking Pool''), (''amount'', PStr am),
                (''token'', PStr (token_value t))]"
proof -
  from assms have
    "\<exists>ua. chat_user_address request = Some ua \<and> ua \<noteq> [] \<and>
       (\<exists>t. TokenType_of (dict_get (parsed_data i) ''token'' (PStr ''SUI'')) = Inr t \<and>
         (\<exists>bi. get_balance sv ua t = Inr bi \<and>
           (\<exists>am. amount_in_smallest (dict_get (parsed_data i) ''amount'' (PStr ''0'')) 9 = Inr am \<and>
              estimate_gas_fee sv [] = Inr g \<and>
              a = ''stake_token'' \<and> b = balance bi \<and>
              d = [(''recipient'', PStr ''Staking Pool''), (''amount'', PStr am),
                   (''token'', PStr (token_value t))])))"
    by (simp add: stake_token_branch_def Let_def in_calls) (metis (no_types))
  then show ?thesis
    by blast
qed

lemma stake_branch_ready:
  assumes "GenerateDryRunSummary a d b g \<in> set (fst (stake_token_branch sv request i))"
      and "generate_dry_run_summary sv a d b g = Inr dry"
  shows "\<exists>resp. snd (stake_token_branch sv request i) = Inr resp \<and> dry_run resp = Some dry \<and>
               ready_to_execute resp = (risk_level dry \<noteq> High)"
proof -
  from stake_branch_reached [OF assms(1)] obtain ua t bi am where
    "chat_user_address request = Some ua" "ua \<noteq> []"
    "TokenType_of (dict_get (parsed_data i) ''token'' (PStr ''SUI'')) = Inr t"
    "get_balance sv ua t = Inr bi"
    "amount_in_smallest (dict_get (parsed_data i) ''amount'' (PStr ''0'')) 9 = Inr am"
    "estimate_gas_fee sv [] = Inr g"
    "a = ''stake_token''" "b = balance bi"
    "d = [(''recipient'', PStr ''Staking Pool''), (''amount'', PStr am),
          (''token'', PStr (token_value t))]"
    by blast
  with assms(2) show ?thesis
    by (simp add: stake_token_branch_def with_address_def Let_def snd_eff risk_value_high)
qed

lemma transfer_branch_reached:
  assumes "GenerateDryRunSummary a d b g \<in> set (fst (transfer_token_branch sv request i))"
  shows "\<exists>ua t bi am.
           chat_user_address request = Some ua \<and> ua \<noteq> [] \<and>
           \<not> truthy (dict_get (parsed_data i) ''is_contact_name'' (PBool False)) \<and>
           TokenType_of (dict_get (parsed_data i) ''token'' (PStr ''SUI'')) = Inr t \<and>
           get_balance sv ua t = Inr bi \<and>
           amount_in_smallest (dict_get (parsed_data i) ''amount'' (PStr ''0''))
             (if t = SUI then 9 else 6) = Inr am \<and>
           estimate_gas_fee sv [] = Inr g \<and>
           a = ''transfer_token'' \<and> b = balance bi \<and>
           d = [(''recipient'', dict_get (parsed_data i) ''recipient'' PNone),
                (''amount'', PStr am), (''token'', PStr (token_value t))]"
proof (cases "truthy (dict_get (parsed_data i) ''is_contact_name'' (PBool False))")
  case True
  with assms have False
    by (simp add: transfer_token_branch_def Let_def in_calls split: option.splits)
  then show ?thesis ..
next
  case False
  with assms have
    "\<exists>ua. chat_user_address request = Some ua \<and> ua \<noteq> [] \<and>
       (\<exists>t. TokenType_of (dict_get (parsed_data i) ''token'' (PStr ''SUI'')) = Inr t \<and>
         (\<exists>bi. get_balance sv ua t = Inr bi \<and>
           (\<exists>am. amount_in_smallest (dict_get (parsed_data i) ''amount'' (PStr ''0''))
                    (if t = SUI then 9 else 6) = Inr am \<and>
              estimate_gas_fee sv [] = Inr g \<and>
              a = ''transfer_token'' \<and> b = balance bi \<and>
              d = [(''recipient'', dict_get (parsed_data i) ''recipient'' PNone),
                   (''amount'', PStr am), (''token'', PStr (token_value t))])))"
    by (simp add: transfer_token_branch_def Let_def in_calls split del: if_split)
       (metis (no_types))
  with False show ?thesis
    by blast
qed

lemma transfer_branch_ready:
  assumes "GenerateDryRunSummary a d b g \<in> set (fst (transfer_token_branch sv request i))"
      and "generate_dry_run_summary sv a d b g = Inr dry"
  shows "\<exists>resp. snd (transfer_token_branch sv request i) = Inr resp \<and> dry_run resp = Some dry \<and>
               ready_to_execute resp = (risk_level dry \<noteq> High)"
proof -
  from transfer_branch_reached [OF assms(1)] obtain ua t bi am where
    "chat_user_address request = Some ua" "ua \<noteq> []"
    "\<not> truthy (dict_get (parsed_data i) ''is_contact_name'' (PBool False))"
    "TokenType_of (dict_get (parsed_data i) ''token'' (PStr ''SUI'')) = Inr t"
    "get_balance sv ua t = Inr bi"
    "amount_in_smallest (dict_get (parsed_data i) ''amount'' (PStr ''0''))
       (if t = SUI then 9 else 6) = Inr am"
    "estimate_gas_fee sv [] = Inr g"
    "a = ''transfer_token''" "b = balance bi"
    "d = [(''recipient'', dict_get (parsed_data i) ''recipient'' PNone), (''amount'', PStr am),
          (''token'', PStr (token_value t))]"
    by blast
  with assms(2) show ?thesis
    by (simp add: transfer_token_branch_def with_address_def Let_def snd_eff risk_value_high)
qed

text \<open>
  C2 (only the high risk level blocks a stake or a transfer). When the classifier answers with
  a STAKE_TOKEN or TRANSFER_TOKEN intent and the dispatcher reaches dry-run building, that is,
  it calls the dry-run builder and the builder answers with a summary, then the endpoint
  returns a response that carries this summary and whose \<^verbatim>\<open>ready_to_execute\<close> is false if
  the summary's risk level is high and true for the two other levels.
\<close>

theorem only_high_risk_blocks_stake_and_transfer:
  assumes parse: "parse_intent sv (chat_message request) (chat_user_address request) = Inr i"
      and act: "action i = STAKE_TOKEN \<or> action i = TRANSFER_TOKEN"
      and reached: "GenerateDryRunSummary a d b g \<in> set (fst (chat_endpoint sv request))"
      and built: "generate_dry_run_summary sv a d b g = Inr dry"
  shows "\<exists>resp. snd (chat_endpoint sv request) = Inr resp \<and> dry_run resp = Some dry \<and>
               ready_to_execute resp = (risk_level dry \<noteq> High)"
proof -
  from reached have r: "GenerateDryRunSummary a d b g \<in> set (fst (dispatch sv request i (action i)))"
    by (simp add: fst_chat_endpoint [OF parse])
  from act have "\<exists>resp. snd (dispatch sv request i (action i)) = Inr resp \<and>
                   dry_run resp = Some dry \<and> ready_to_execute resp = (risk_level dry \<noteq> High)"
  proof
    assume "action i = STAKE_TOKEN"
    with r built show ?thesis
      by (simp add: stake_branch_ready)
  next
    assume "action i = TRANSFER_TOKEN"
    with r built show ?thesis
      by (simp add: transfer_branch_ready)
  qed
  then show ?thesis
    by (simp add: snd_chat_endpoint [OF parse])
qed

theorem only_high_risk_blocks_witness:
  "(\<exists>resp. snd (chat_endpoint
                  (sample_services
                     (sample_intent TRANSFER_TOKEN
                        [(''recipient'', PStr ''0xdef''), (''amount'', PStr ''100''),
                         (''token'', PStr ''SUI'')])
                     High (PStr ''0'') None)
                  sample_request) = Inr resp \<and>
           dry_run resp = Some \<lparr>action_description = ''move tokens'', risk_level = High,
                                 estimated_gas_fee = PFloat (Finite (1 / 1024))\<rparr> \<and>
           ready_to_execute resp = False) \<and>
   (\<exists>resp. snd (chat_endpoint
                  (sample_services
                     (sample_intent STAKE_TOKEN [(''amount'', PStr ''100'')])
                     Medium (PStr ''0'') None)
                  sample_request) = Inr resp \<and>
           dry_run resp = Some \<lparr>action_description = ''move tokens'', risk_level = Medium,
                                 estimated_gas_fee = PFloat (Finite (1 / 1024))\<rparr> \<and>
           ready_to_execute resp = True)"
proof -
  let ?i1 = "sample_intent TRANSFER_TOKEN
               [(''recipient'', PStr ''0xdef''), (''amount'', PStr ''100''),
                (''token'', PStr ''SUI'')]"
  let ?s1 = "sample_services ?i1 High (PStr ''0'') None"
  let ?d1 = "[(''recipient'', PStr ''0xdef''), (''amount'', PStr ''100000000000''),
              (''token'', PStr ''SUI'')]"
  let ?i2 = "sample_intent STAKE_TOKEN [(''amount'', PStr ''100'')]"
  let ?s2 = "sample_services ?i2 Medium (PStr ''0'') None"
  let ?d2 = "[(''recipient'', PStr ''Staking Pool''), (''amount'', PStr ''100000000000''),
              (''token'', PStr ''SUI'')]"
  let ?g = "PFloat (Finite (1 / 1024))"
  have p1: "parse_intent ?s1 (chat_message sample_request) (chat_user_address sample_request)
              = Inr ?i1"
    and p2: "parse_intent ?s2 (chat_message sample_request) (chat_user_address sample_request)
              = Inr ?i2"
    by (simp_all add: sample_services_def)
  have a1: "action ?i1 = STAKE_TOKEN \<or> action ?i1 = TRANSFER_TOKEN"
    and a2: "action ?i2 = STAKE_TOKEN \<or> action ?i2 = TRANSFER_TOKEN"
    by (simp_all add: sample_intent_def)
  have r1: "GenerateDryRunSummary ''transfer_token'' ?d1 (PStr ''5000000000'') ?g
              \<in> set (fst (chat_endpoint ?s1 sample_request))"
    by code_simp
  have r2: "GenerateDryRunSummary ''stake_token'' ?d2 (PStr ''5000000000'') ?g
              \<in> set (fst (chat_endpoint ?s2 sample_request))"
    by code_simp
  have b1: "generate_dry_run_summary ?s1 ''transfer_token'' ?d1 (PStr ''5000000000'') ?g =
              Inr \<lparr>action_description = ''move tokens'', risk_level = High,
                    estimated_gas_fee = ?g\<rparr>"
    and b2: "generate_dry_run_summary ?s2 ''stake_token'' ?d2 (PStr ''5000000000'') ?g =
              Inr \<lparr>action_description = ''move tokens'', risk_level = Medium,
                    estimated_gas_fee = ?g\<rparr>"
    by (simp_all add: sample_services_def)
  from only_high_risk_blocks_stake_and_transfer [OF p1 a1 r1 b1]
       only_high_risk_blocks_stake_and_transfer [OF p2 a2 r2 b2]
  show ?thesis
    by simp
qed

lemma unstake_branch_refused:
  assumes "chat_user_address request = Some ua" "ua \<noteq> []"
      and "TokenType_of (dict_get (parsed_data i) ''token'' (PStr ''SUI'')) = Inr t"
      and "get_user_stake sv ua t = Inr si"
      and "get_balance sv ua t = Inr bi"
      and "amount_in_smallest (dict_get (parsed_data i) ''amount'' (PStr ''0'')) 9 = Inr am"
      and "int_of_str am = Inr requested"
      and "py_int (staked_amount si) = Inr staked"
      and "staked < requested"
  shows "fst (unstake_token_branch sv request i) = [GetUserStake ua t, GetBalance ua t]"
    and "\<exists>resp. snd (unstake_token_branch sv request i) = Inr resp \<and> \<not> ready_to_execute resp \<and>
               dry_run resp = None \<and> transaction_data resp = None"
  using assms
  by (simp_all add: unstake_token_branch_def Let_def fst_with_address snd_with_address
        fst_eff snd_eff info_response_def)

lemma unstake_branch_accepted:
  assumes "chat_user_address request = Some ua" "ua \<noteq> []"
      and "TokenType_of (dict_get (parsed_data i) ''token'' (PStr ''SUI'')) = Inr t"
      and "get_user_stake sv ua t = Inr si"
      and "get_balance sv ua t = Inr bi"
      and "amount_in_smallest (dict_get (parsed_data i) ''amount'' (PStr ''0'')) 9 = Inr am"
      and "int_of_str am = Inr requested"
      and "py_int (staked_amount si) = Inr staked"
      and "requested \<le> staked"
  shows "snd (unstake_token_branch sv request i) = Inr resp \<Longrightarrow> ready_to_execute resp"
    and "estimate_gas_fee sv [] = Inr g \<Longrightarrow>
         generate_dry_run_summary sv ''unstake_token''
           [(''recipient'', PStr ua), (''amount'', PStr am), (''token'', PStr (token_value t))]
           (balance bi) g = Inr dry \<Longrightarrow>
         \<exists>resp. snd (unstake_token_branch sv request i) = Inr resp \<and> ready_to_execute resp \<and>
                dry_run resp = Some dry"
  using assms
  by (auto simp add: unstake_token_branch_def Let_def snd_with_address snd_eff
        split: sum.splits)


text \<open>
  What the unstake branch compares. The dispatch reaches the comparison when the user address
  is present, the token is valid, the gateway answers the stake and the balance queries, and
  both amounts convert to integers. Here \<open>converted\<close> is the integer whose decimal string
  the amount normalization of the branch produced, with the exponent 9 and through a float; it
  is not always the requested amount in smallest units. If it exceeds the staked amount, the
  endpoint has called only the classifier and the two queries and returns a response with
  \<^verbatim>\<open>ready_to_execute = False\<close>, no dry run and no payload, whatever the balance \<open>bi\<close> is.
  Otherwise every response it returns has \<^verbatim>\<open>ready_to_execute = True\<close>, and it does return
  one, carrying the dry run, when the gas estimate and the dry-run builder answer; the risk
  level plays no part.
\<close>

lemma unstake_compares_converted_amount:
  assumes parse: "parse_intent sv (chat_message request) (chat_user_address request) = Inr i"
      and act: "action i = UNSTAKE_TOKEN"
      and addr: "chat_user_address request = Some ua" "ua \<noteq> []"
      and tok: "TokenType_of (dict_get (parsed_data i) ''token'' (PStr ''SUI'')) = Inr t"
      and stake: "get_user_stake sv ua t = Inr si"
      and bal: "get_balance sv ua t = Inr bi"
      and amt: "amount_in_smallest (dict_get (parsed_data i) ''amount'' (PStr ''0'')) 9
                  = Inr (str_int converted)"
      and stk: "py_int (staked_amount si) = Inr staked"
  shows "(staked < converted \<longrightarrow>
            fst (chat_endpoint sv request) =
              [ParseIntent (chat_message request) (chat_user_address request),
               GetUserStake ua t, GetBalance ua t] \<and>
            (\<exists>resp. snd (chat_endpoint sv request) = Inr resp \<and> \<not> ready_to_execute resp \<and>
                    dry_run resp = None \<and> transaction_data resp = None)) \<and>
         (converted \<le> staked \<longrightarrow>
            (\<forall>resp. snd (chat_endpoint sv request) = Inr resp \<longrightarrow> ready_to_execute resp) \<and>
            (\<forall>g dry. estimate_gas_fee sv [] = Inr g \<and>
                     generate_dry_run_summary sv ''unstake_token''
                       [(''recipient'', PStr ua), (''amount'', PStr (str_int converted)),
                        (''token'', PStr (token_value t))]
                       (balance bi) g = Inr dry \<longrightarrow>
                     (\<exists>resp. snd (chat_endpoint sv request) = Inr resp \<and>
                             ready_to_execute resp \<and> dry_run resp = Some dry)))"
proof -
  note rt = int_of_str_str_int [of converted]
  have d: "dispatch sv request i (action i) = unstake_token_branch sv request i"
    by (simp add: act)
  show ?thesis
  proof (intro conjI impI allI)
    assume lt: "staked < converted"
    from unstake_branch_refused(1) [OF addr tok stake bal amt rt stk lt]
    show "fst (chat_endpoint sv request) =
            [ParseIntent (chat_message request) (chat_user_address request),
             GetUserStake ua t, GetBalance ua t]"
      by (simp add: fst_chat_endpoint [OF parse] d)
    from unstake_branch_refused(2) [OF addr tok stake bal amt rt stk lt]
    show "\<exists>resp. snd (chat_endpoint sv request) = Inr resp \<and> \<not> ready_to_execute resp \<and>
                 dry_run resp = None \<and> transaction_data resp = None"
      by (simp add: snd_chat_endpoint [OF parse] d)
  next
    fix resp
    assume le: "converted \<le> staked" and r: "snd (chat_endpoint sv request) = Inr resp"
    from r have "snd (unstake_token_branch sv request i) = Inr resp"
      by (simp add: snd_chat_endpoint [OF parse] d)
    then show "ready_to_execute resp"
      by (rule unstake_branch_accepted(1) [OF addr tok stake bal amt rt stk le])
  next
    fix g dry
    assume le: "converted \<le> staked"
      and h: "estimate_gas_fee sv [] = Inr g \<and>
              generate_dry_run_summary sv ''unstake_token''
                [(''recipient'', PStr ua), (''amount'', PStr (str_int converted)),
                 (''token'', PStr (token_value t))]
                (balance bi) g = Inr dry"
    from unstake_branch_accepted(2) [OF addr tok stake bal amt rt stk le conjunct1 [OF h]
           conjunct2 [OF h]]
    show "\<exists>resp. snd (chat_endpoint sv request) = Inr resp \<and>
                 ready_to_execute resp \<and> dry_run resp = Some dry"
      by (simp add: snd_chat_endpoint [OF parse] d)
  qed
qed

lemma unstake_compares_converted_amount_example:
  "(\<exists>resp. chat_endpoint
             (sample_services
                (sample_intent UNSTAKE_TOKEN [(''amount'', PStr ''3''), (''token'', PStr ''SUI'')])
                Low (PStr ''2000000000'') None)
             sample_request =
           ([ParseIntent ''do it'' (Some ''0xabc''), GetUserStake ''0xabc'' SUI,
             GetBalance ''0xabc'' SUI], Inr resp) \<and>
           \<not> ready_to_execute resp \<and> dry_run resp = None \<and> transaction_data resp = None) \<and>
   (\<exists>resp. snd (chat_endpoint
                  (sample_services
                     (sample_intent UNSTAKE_TOKEN
                        [(''amount'', PStr ''2''), (''token'', PStr ''SUI'')])
                     High (PStr ''2000000000'') None)
                  sample_request) = Inr resp \<and>
           ready_to_execute resp)"
proof -
  let ?i1 = "sample_intent UNSTAKE_TOKEN [(''amount'', PStr ''3''), (''token'', PStr ''SUI'')]"
  let ?s1 = "sample_services ?i1 Low (PStr ''2000000000'') None"
  let ?i2 = "sample_intent UNSTAKE_TOKEN [(''amount'', PStr ''2''), (''token'', PStr ''SUI'')]"
  let ?s2 = "sample_services ?i2 High (PStr ''2000000000'') None"
  let ?si = "\<lparr>staked_amount = PStr ''2000000000'', staked_amount_formatted = PStr ''2.0'',
             stake_token = SUI\<rparr>"
  let ?bi = "\<lparr>balance = PStr ''5000000000'', balance_formatted = PStr ''5.0'',
             balance_token = SUI\<rparr>"
  let ?g = "PFloat (Finite (1 / 1024))"
  let ?dry = "\<lparr>action_description = ''move tokens'', risk_level = High,
              estimated_gas_fee = ?g\<rparr>"
  have p1: "parse_intent ?s1 (chat_message sample_request) (chat_user_address sample_request)
              = Inr ?i1"
    and p2: "parse_intent ?s2 (chat_message sample_request) (chat_user_address sample_request)
              = Inr ?i2"
    by (simp_all add: sample_services_def)
  have a1: "action ?i1 = UNSTAKE_TOKEN" and a2: "action ?i2 = UNSTAKE_TOKEN"
    by (simp_all add: sample_intent_def)
  have u: "chat_user_address sample_request = Some ''0xabc''" "''0xabc'' \<noteq> []"
    by (simp_all add: sample_request_def)
  have t1: "TokenType_of (dict_get (parsed_data ?i1) ''token'' (PStr ''SUI'')) = Inr SUI"
    and t2: "TokenType_of (dict_get (parsed_data ?i2) ''token'' (PStr ''SUI'')) = Inr SUI"
    by (simp_all add: sample_intent_def dict_get_def TokenType_of_def)
  have s1: "get_user_stake ?s1 ''0xabc'' SUI = Inr ?si"
    and s2: "get_user_stake ?s2 ''0xabc'' SUI = Inr ?si"
    and b1: "get_balance ?s1 ''0xabc'' SUI = Inr ?bi"
    and b2: "get_balance ?s2 ''0xabc'' SUI = Inr ?bi"
    by (simp_all add: sample_services_def)
  have m1: "amount_in_smallest (dict_get (parsed_data ?i1) ''amount'' (PStr ''0'')) 9
              = Inr (str_int 3000000000)"
    and m2: "amount_in_smallest (dict_get (parsed_data ?i2) ''amount'' (PStr ''0'')) 9
              = Inr (str_int 2000000000)"
    by code_simp+
  have k: "py_int (staked_amount ?si) = Inr 2000000000"
    by code_simp
  have e: "estimate_gas_fee ?s2 [] = Inr ?g \<and>
           generate_dry_run_summary ?s2 ''unstake_token''
             [(''recipient'', PStr ''0xabc''), (''amount'', PStr (str_int 2000000000)),
              (''token'', PStr (token_value SUI))]
             (balance ?bi) ?g = Inr ?dry"
    by (simp add: sample_services_def)
  have c: "chat_message sample_request = ''do it''"
    by (simp add: sample_request_def)
  from unstake_compares_converted_amount [OF p1 a1 u t1 s1 b1 m1 k] e
       unstake_compares_converted_amount [OF p2 a2 u t2 s2 b2 m2 k]
  show ?thesis
    by (auto simp add: u c prod_eq_iff)
qed

section \<open>The unstake check works on the inexact amount\<close>

text \<open>
  C3 (an unstake of more than is staked is refused, an unstake of at most the staked amount is
  ready). The branch compares the staked amount with the output of its own amount
  normalization, which goes through a float and uses the exponent 9 for every token.
  A user with \<open>1000999999\<close> smallest units of SUI staked who asks to unstake
  \<^verbatim>\<open>"1.001"\<close> SUI, that is \<open>1001000000\<close> smallest units and more than is staked, gets
  a response with \<^verbatim>\<open>ready_to_execute = True\<close>, a dry run and a payload. A user with
  \<open>5000000\<close> smallest units of USDC staked who asks to unstake \<^verbatim>\<open>"1"\<close> USDC, that is
  \<open>1000000\<close> smallest units and less than is staked, is refused.
\<close>

theorem unstake_check_on_inexact_amount:
  "map_sum id (\<lambda>r. (ready_to_execute r, dry_run r \<noteq> None, transaction_data r))
     (snd (chat_endpoint
             (sample_services
                (sample_intent UNSTAKE_TOKEN
                   [(''amount'', PStr ''1.001''), (''token'', PStr ''SUI'')])
                Low (PStr ''1000999999'') None)
             sample_request)) =
     Inr (True, True,
          Some [(''action'', PStr ''unstake_token''), (''amount'', PStr ''1000999999''),
                (''token'', PStr ''SUI'')]) \<and>
   spec_smallest_units ''1.001'' 9 = Some ''1001000000'' \<and>
   map_sum id (\<lambda>r. (ready_to_execute r, dry_run r, transaction_data r))
     (snd (chat_endpoint
             (sample_services
                (sample_intent UNSTAKE_TOKEN
                   [(''amount'', PStr ''1''), (''token'', PStr ''USDC'')])
                Low (PStr ''5000000'') None)
             sample_request)) =
     Inr (False, None, None) \<and>
   spec_smallest_units ''1'' 6 = Some ''1000000''"
  by code_simp

lemma create_book_existing:
  assumes "chat_user_address request = Some ua" "ua \<noteq> []"
      and "get_user_address_book sv ua = Inr (Some book)"
  shows "fst (create_address_book_branch sv request i) = [GetUserAddressBook ua]"
    and "\<exists>resp. snd (create_address_book_branch sv request i) = Inr resp \<and>
               \<not> ready_to_execute resp \<and> transaction_data resp = None"
  using assms
  by (simp_all add: create_address_book_branch_def fst_with_address snd_with_address
        fst_eff snd_eff info_response_def)

lemma create_book_new:
  assumes "chat_user_address request = Some ua" "ua \<noteq> []"
      and "get_user_address_book sv ua = Inr None"
  shows "fst (create_address_book_branch sv request i) =
           [GetUserAddressBook ua, BuildCreateAddressBookTx ua]"
    and "build_create_address_book_tx sv ua = Inr tx \<Longrightarrow>
         \<exists>resp. snd (create_address_book_branch sv request i) = Inr resp \<and>
                ready_to_execute resp \<and> transaction_data resp \<noteq> None"
  using assms
  by (simp_all add: create_address_book_branch_def fst_with_address snd_with_address
        fst_eff snd_eff split: sum.splits)

text \<open>
  C8 (creating the address book is idempotent). For a CREATE_ADDRESS_BOOK intent with a user
  address: when the existence check reports a book, the endpoint has called the classifier and
  the existence check only, so no build call is issued, and it returns a response with
  \<^verbatim>\<open>ready_to_execute = False\<close> and no payload. When the check reports no book, the calls are
  the classifier, the check and exactly one build call, and when the build answers the response
  has \<^verbatim>\<open>ready_to_execute = True\<close> and a payload.
\<close>

theorem create_address_book_idempotent:
  assumes parse: "parse_intent sv (chat_message request) (chat_user_address request) = Inr i"
      and act: "action i = CREATE_ADDRESS_BOOK"
      and addr: "chat_user_address request = Some ua" "ua \<noteq> []"
  shows "(get_user_address_book sv ua = Inr (Some book) \<longrightarrow>
            fst (chat_endpoint sv request) =
              [ParseIntent (chat_message request) (chat_user_address request),
               GetUserAddressBook ua] \<and>
            (\<exists>resp. snd (chat_endpoint sv request) = Inr resp \<and> \<not> ready_to_execute resp \<and>
                    transaction_data resp = None)) \<and>
         (get_user_address_book sv ua = Inr None \<longrightarrow>
            fst (chat_endpoint sv request) =
              [ParseIntent (chat_message request) (chat_user_address request),
               GetUserAddressBook ua, BuildCreateAddressBookTx ua] \<and>
            (\<forall>tx. build_create_address_book_tx sv ua = Inr tx \<longrightarrow>
                  (\<exists>resp. snd (chat_endpoint sv request) = Inr resp \<and> ready_to_execute resp \<and>
                          transaction_data resp \<noteq> None)))"
proof -
  have d: "dispatch sv request i (action i) = create_address_book_branch sv request i"
    by (simp add: act)
  show ?thesis
    using create_book_existing [OF addr, where sv = sv and book = book and i = i]
          create_book_new [OF addr, where sv = sv and i = i]
    by (simp add: fst_chat_endpoint [OF parse] snd_chat_endpoint [OF parse] d)
qed

theorem create_address_book_idempotent_witness:
  "(fst (chat_endpoint
           (sample_services (sample_intent CREATE_ADDRESS_BOOK []) Low (PStr ''0'')
              (Some \<lparr>object_id = ''0x1234567890abcdef1234''\<rparr>))
           sample_request) =
      [ParseIntent ''do it'' (Some ''0xabc''), GetUserAddressBook ''0xabc''] \<and>
    (\<exists>resp. snd (chat_endpoint
                   (sample_services (sample_intent CREATE_ADDRESS_BOOK []) Low (PStr ''0'')
                      (Some \<lparr>object_id = ''0x1234567890abcdef1234''\<rparr>))
                   sample_request) = Inr resp \<and>
            \<not> ready_to_execute resp \<and> transaction_data resp = None)) \<and>
   (fst (chat_endpoint
           (sample_services (sample_intent CREATE_ADDRESS_BOOK []) Low (PStr ''0'') None)
           sample_request) =
      [ParseIntent ''do it'' (Some ''0xabc''), GetUserAddressBook ''0xabc'',
       BuildCreateAddressBookTx ''0xabc''] \<and>
    (\<exists>resp. snd (chat_endpoint
                   (sample_services (sample_intent CREATE_ADDRESS_BOOK []) Low (PStr ''0'') None)
                   sample_request) = Inr resp \<and>
            ready_to_execute resp \<and> transaction_data resp \<noteq> None))"
proof -
  let ?i = "sample_intent CREATE_ADDRESS_BOOK []"
  let ?b = "\<lparr>object_id = ''0x1234567890abcdef1234''\<rparr>"
  let ?s1 = "sample_services ?i Low (PStr ''0'') (Some ?b)"
  let ?s2 = "sample_services ?i Low (PStr ''0'') None"
  have p1: "parse_intent ?s1 (chat_message sample_request) (chat_user_address sample_request)
              = Inr ?i"
    and p2: "parse_intent ?s2 (chat_message sample_request) (chat_user_address sample_request)
              = Inr ?i"
    by (simp_all add: sample_services_def)
  have a: "action ?i = CREATE_ADDRESS_BOOK"
    by (simp add: sample_intent_def)
  have u: "chat_user_address sample_request = Some ''0xabc''" "''0xabc'' \<noteq> []"
    by (simp_all add: sample_request_def)
  have c: "chat_message sample_request = ''do it''"
    by (simp add: sample_request_def)
  have g1: "get_user_address_book ?s1 ''0xabc'' = Inr (Some ?b)"
    and g2: "get_user_address_book ?s2 ''0xabc'' = Inr None"
    and t2: "build_create_address_book_tx ?s2 ''0xabc'' =
               Inr [(''transaction_type'', PStr ''move_call''),
                    (''target'', PStr ''address_book::create'')]"
    by (simp_all add: sample_services_def)
  from create_address_book_idempotent [OF p1 a u, of ?b]
       create_address_book_idempotent [OF p2 a u, of ?b]
  show ?thesis
    by (simp add: g1 g2 t2 u c)
qed

section \<open>The decimal exponent of the stake and unstake flows\<close>

text \<open>
  C4 (every monetary flow normalizes with the token's exponent, 9 for SUI and 6 for USDC). The
  transfer branch chooses the exponent from the token; the stake and unstake branches use 9
  for every token. For the amount \<^verbatim>\<open>"1"\<close> of USDC the transfer payload carries
  \<open>1000000\<close>, the stake and unstake payloads carry \<open>1000000000\<close>.
\<close>

theorem stake_and_unstake_ignore_token_exponent:
  "map_sum id transaction_data
     (snd (chat_endpoint
             (sample_services
                (sample_intent TRANSFER_TOKEN
                   [(''recipient'', PStr ''0xdef''), (''amount'', PStr ''1''),
                    (''token'', PStr ''USDC'')])
                Low (PStr ''5000000000'') None)
             sample_request)) =
     Inr (Some [(''action'', PStr ''transfer_token''), (''recipient'', PStr ''0xdef''),
                (''amount'', PStr ''1000000''), (''token'', PStr ''USDC'')]) \<and>
   map_sum id transaction_data
     (snd (chat_endpoint
             (sample_services
                (sample_intent STAKE_TOKEN [(''amount'', PStr ''1''), (''token'', PStr ''USDC'')])
                Low (PStr ''5000000000'') None)
             sample_request)) =
     Inr (Some [(''action'', PStr ''stake_token''), (''amount'', PStr ''1000000000''),
                (''token'', PStr ''USDC'')]) \<and>
   map_sum id transaction_data
     (snd (chat_endpoint
             (sample_services
                (sample_intent UNSTAKE_TOKEN [(''amount'', PStr ''1''), (''token'', PStr ''USDC'')])
                Low (PStr ''5000000000'') None)
             sample_request)) =
     Inr (Some [(''action'', PStr ''unstake_token''), (''amount'', PStr ''1000000000''),
                (''token'', PStr ''USDC'')])"
  by code_simp


section \<open>The contact vault\<close>

lemma try_except_except_all:
  "try_except (l, Inl e) (except_all p) =
     (l, Inl (HTTPException HTTP_500_INTERNAL_SERVER_ERROR [Lit p, StrExn e]))"
  by (simp add: try_except_def except_all_def raise_def)

text \<open>
  C5 (a save without name or address is a client error). The check raises
  \<^verbatim>\<open>HTTPException(400)\<close> inside the \<^verbatim>\<open>try\<close> block, whose only handler,
  \<^verbatim>\<open>except Exception\<close>, catches it and raises \<^verbatim>\<open>HTTPException(500)\<close>: the endpoint
  answers with the server-error status 500. It makes no storage or encryption call and leaves
  the state as it was.
\<close>

theorem save_contact_missing_field_gives_500:
  assumes "contact_name request = None \<or> contact_name request = Some [] \<or>
           contact_address request = None \<or> contact_address request = Some []"
  shows "save_contact sv request st =
           (([], Inl (HTTPException HTTP_500_INTERNAL_SERVER_ERROR
                        [Lit ''Error saving contact: '',
                         StrExn (HTTPException HTTP_400_BAD_REQUEST
                                   [Lit ''Contact name and address are required''])])),
            st)"
  using assms
  by (auto simp add: save_contact_def Let_def opt_val_def raise_def try_except_except_all)

theorem save_contact_missing_field_witness:
  "save_contact sample_vault
     \<lparr>user_address = ''0xabc'', contact_name = Some [], contact_address = Some ''0xa11ce'',
      contact_notes = None\<rparr>
     (Map.empty, []) =
     (([], Inl (HTTPException 500
                  [Lit ''Error saving contact: '',
                   StrExn (HTTPException 400 [Lit ''Contact name and address are required''])])),
      (Map.empty, []))"
proof -
  let ?r = "\<lparr>user_address = ''0xabc'', contact_name = Some [],
            contact_address = Some ''0xa11ce'', contact_notes = None\<rparr>"
  have h: "contact_name ?r = None \<or> contact_name ?r = Some [] \<or>
           contact_address ?r = None \<or> contact_address ?r = Some []"
    by simp
  from save_contact_missing_field_gives_500 [OF h, of sample_vault "(Map.empty, [])"]
  show ?thesis
    by (simp add: HTTP_500_INTERNAL_SERVER_ERROR_def HTTP_400_BAD_REQUEST_def)
qed
lemma snd_try_except_except_all: "snd (try_except (l, Inl e) (except_all p)) \<noteq> Inr x"
  by (simp add: try_except_except_all)

lemma fst_extern: "fst (extern c r) = [c]"
  by (simp add: extern_def)

lemma snd_extern: "snd (extern c r) = r"
  by (simp add: extern_def)

lemma save_contact_success:
  assumes "snd (fst (save_contact sv r st)) = Inr resp"
  shows "\<exists>cs blob blob_id.
           (case fst st (user_address r) of
              None \<Rightarrow> cs = []
            | Some id0 \<Rightarrow>
                (\<exists>b0. download_blob sv (snd st) id0 = Inr b0 \<and>
                      decrypt_bulk_contacts sv (user_address r) b0 = Inr cs)) \<and>
           encrypt_bulk_contacts sv (user_address r) (cs @ [contact_record r]) = Inr blob \<and>
           fst (upload_blob sv (snd st) blob) = Inr blob_id \<and>
           snd (save_contact sv r st) =
             ((fst st)(user_address r \<mapsto> blob_id), snd (upload_blob sv (snd st) blob))"
proof (cases "fst st (user_address r)")
  case None
  with assms show ?thesis
    by (auto simp add: save_contact_def Let_def contact_record_def snd_try_except_except_all
          raise_def extern_def split: if_splits sum.splits)
next
  case (Some id0)
  with assms show ?thesis
    by (auto simp add: save_contact_def Let_def contact_record_def snd_try_except_except_all
          raise_def snd_and_then_extern fst_and_then_extern fst_extern snd_extern
          split: if_splits sum.splits)
qed

lemma save_contact_holds:
  assumes c: "vault_contract sv"
      and h: "\<forall>u. holds_records sv st u (f u)"
      and ok: "snd (fst (save_contact sv r st)) = Inr resp"
  shows "holds_records sv (snd (save_contact sv r st)) u
           (if u = user_address r then f u @ [contact_record r] else f u)"
proof -
  from save_contact_success [OF ok] obtain cs blob blob_id where
    old: "case fst st (user_address r) of
            None \<Rightarrow> cs = []
          | Some id0 \<Rightarrow>
              (\<exists>b0. download_blob sv (snd st) id0 = Inr b0 \<and>
                    decrypt_bulk_contacts sv (user_address r) b0 = Inr cs)"
    and enc: "encrypt_bulk_contacts sv (user_address r) (cs @ [contact_record r]) = Inr blob"
    and up: "fst (upload_blob sv (snd st) blob) = Inr blob_id"
    and st': "snd (save_contact sv r st) =
                ((fst st)(user_address r \<mapsto> blob_id), snd (upload_blob sv (snd st) blob))"
    by blast
  from h have "holds_records sv st (user_address r) (f (user_address r))"
    by simp
  with old have cs: "cs = f (user_address r)"
    by (auto simp add: holds_records_def split: option.splits sum.splits)
  from c enc have dec: "decrypt_bulk_contacts sv (user_address r) blob = Inr (cs @ [contact_record r])"
    by (simp add: vault_contract_def)
  from c up have dl: "download_blob sv (snd (upload_blob sv (snd st) blob)) blob_id = Inr blob"
    by (simp add: vault_contract_def)
  from c have keep: "\<And>i b0. download_blob sv (snd st) i = Inr b0 \<Longrightarrow>
                      download_blob sv (snd (upload_blob sv (snd st) blob)) i = Inr b0"
    by (simp add: vault_contract_def)
  show ?thesis
  proof (cases "u = user_address r")
    case True
    with dec dl cs show ?thesis
      by (simp add: holds_records_def st')
  next
    case False
    from h have hu: "holds_records sv st u (f u)"
      by simp
    show ?thesis
    proof (cases "fst st u")
      case None
      with hu False show ?thesis
        by (simp add: holds_records_def st')
    next
      case (Some i)
      with hu obtain b0 where b0: "download_blob sv (snd st) i = Inr b0"
        and d0: "decrypt_bulk_contacts sv u b0 = Inr (f u)"
        by (auto simp add: holds_records_def split: sum.splits)
      from keep [OF b0] d0 Some False show ?thesis
        by (simp add: holds_records_def st')
    qed
  qed
qed

lemma save_contact_failure:
  assumes "snd (fst (save_contact sv r st)) = Inl e"
  shows "fst (snd (save_contact sv r st)) = fst st \<and>
         (snd (snd (save_contact sv r st)) = snd st \<or>
          (\<exists>blob. snd (snd (save_contact sv r st)) = snd (upload_blob sv (snd st) blob)))"
  using assms
  by (auto simp add: save_contact_def Let_def split: if_splits sum.splits)

lemma save_contact_failure_holds:
  assumes c: "vault_contract sv"
      and h: "holds_records sv st u cs"
      and bad: "snd (fst (save_contact sv r st)) = Inl e"
  shows "holds_records sv (snd (save_contact sv r st)) u cs"
proof -
  from save_contact_failure [OF bad]
  have s: "fst (snd (save_contact sv r st)) = fst st"
    and w: "snd (snd (save_contact sv r st)) = snd st \<or>
            (\<exists>blob. snd (snd (save_contact sv r st)) = snd (upload_blob sv (snd st) blob))"
    by simp_all
  from c have keep: "\<And>i b0 blob. download_blob sv (snd st) i = Inr b0 \<Longrightarrow>
                      download_blob sv (snd (upload_blob sv (snd st) blob)) i = Inr b0"
    by (simp add: vault_contract_def)
  show ?thesis
  proof (cases "fst st u")
    case None
    with h s show ?thesis
      by (simp add: holds_records_def)
  next
    case (Some i)
    with h obtain b0 where b0: "download_blob sv (snd st) i = Inr b0"
      and d0: "decrypt_bulk_contacts sv u b0 = Inr cs"
      by (auto simp add: holds_records_def split: sum.splits)
    from w have "download_blob sv (snd (snd (save_contact sv r st))) i = Inr b0"
      using b0 keep by auto
    with d0 Some s show ?thesis
      by (simp add: holds_records_def)
  qed
qed

lemma save_all_holds:
  assumes c: "vault_contract sv"
  shows "\<forall>u. holds_records sv st u (f u) \<Longrightarrow>
         holds_records sv (fst (save_all sv rs st)) u
           (f u @ saved_records u (snd (save_all sv rs st)))"
proof (induction rs arbitrary: st f)
  case Nil
  then show ?case
    by (simp add: saved_records_def)
next
  case (Cons r rs)
  show ?case
  proof (cases "snd (fst (save_contact sv r st))")
    case (Inl e)
    have "\<forall>u. holds_records sv (snd (save_contact sv r st)) u (f u)"
      using save_contact_failure_holds [OF c _ Inl] Cons.prems by blast
    from Cons.IH [OF this] Inl show ?thesis
      by (simp add: Let_def)
  next
    case (Inr resp)
    let ?f = "\<lambda>u. if u = user_address r then f u @ [contact_record r] else f u"
    have "\<forall>u. holds_records sv (snd (save_contact sv r st)) u (?f u)"
      using save_contact_holds [OF c Cons.prems Inr] by blast
    from Cons.IH [OF this] Inr show ?thesis
      by (cases "u = user_address r") (auto simp add: saved_records_def Let_def)
  qed
qed

lemma list_contacts_holds:
  "holds_records sv st u cs \<Longrightarrow>
   snd (list_contacts sv u st) = Inr [(''contacts'', PList (map PDict cs))]"
  by (auto simp add: holds_records_def list_contacts_def try_except_def ret_def
        and_then_def extern_def split: option.splits sum.splits)

text \<open>
  C9 (saves accumulate). Let the collaborators keep their contracts, and let save requests of
  any users be served one after the other, starting from the empty \<^verbatim>\<open>contact_storage\<close> of
  a fresh process. Then for every user the blob the mapping points to holds exactly the records
  of that user's successful requests, in the order of the requests and with repetitions; a user
  without a successful request has no entry; and \<^verbatim>\<open>list_contacts\<close> returns exactly these
  records.
\<close>

theorem saved_contacts_accumulate:
  assumes "vault_contract sv"
  shows "holds_records sv (fst (save_all sv rs (Map.empty, w0))) u
           (saved_records u (snd (save_all sv rs (Map.empty, w0)))) \<and>
         snd (list_contacts sv u (fst (save_all sv rs (Map.empty, w0)))) =
           Inr [(''contacts'',
                 PList (map PDict (saved_records u (snd (save_all sv rs (Map.empty, w0))))))]"
proof -
  have "\<forall>u. holds_records sv (Map.empty, w0) u ((\<lambda>u. []) u)"
    by (simp add: holds_records_def)
  from save_all_holds [OF assms this]
  have "holds_records sv (fst (save_all sv rs (Map.empty, w0))) u
          (saved_records u (snd (save_all sv rs (Map.empty, w0))))"
    by simp
  then show ?thesis
    by (simp add: list_contacts_holds)
qed

lemma decode_encode_contact: "encode_contact c = Some b \<Longrightarrow> decode_contact b = Some c"
  by (auto simp add: encode_contact_def decode_contact_def split: if_splits)

lemma decode_encode_all: "encode_all cs = Some bs \<Longrightarrow> decode_all bs = Some cs"
  by (induction cs arbitrary: bs)
     (auto simp add: decode_encode_contact split: option.splits)

lemma sample_vault_contract: "vault_contract sample_vault"
  unfolding vault_contract_def
proof (intro conjI allI impI)
  fix u cs b
  assume "encrypt_bulk_contacts sample_vault u cs = Inr b"
  then show "decrypt_bulk_contacts sample_vault u b = Inr cs"
    by (auto simp add: sample_vault_def decode_encode_all split: option.splits)
next
  fix w b blob_id
  assume "fst (upload_blob sample_vault w b) = Inr blob_id"
  then show "download_blob sample_vault (snd (upload_blob sample_vault w b)) blob_id = Inr b"
    by (auto simp add: sample_vault_def split: option.splits if_splits)
next
  fix w b blob_id b0
  assume "download_blob sample_vault w blob_id = Inr b0"
  then show "download_blob sample_vault (snd (upload_blob sample_vault w b)) blob_id = Inr b0"
    by (auto simp add: sample_vault_def split: option.splits if_splits)
qed

theorem saved_contacts_accumulate_witness:
  "vault_contract sample_vault \<and>
   snd (save_all sample_vault
          [alice_request, dave_request, carol_request, bob_request, alice_request]
          (Map.empty, [])) =
     [alice_request, carol_request, bob_request, alice_request] \<and>
   snd (list_contacts sample_vault ''0xabc''
          (fst (save_all sample_vault
                  [alice_request, dave_request, carol_request, bob_request, alice_request]
                  (Map.empty, [])))) =
     Inr [(''contacts'',
           PList [PDict (contact_record alice_request), PDict (contact_record bob_request),
                  PDict (contact_record alice_request)])] \<and>
   snd (list_contacts sample_vault ''0xdef''
          (fst (save_all sample_vault
                  [alice_request, dave_request, carol_request, bob_request, alice_request]
                  (Map.empty, [])))) =
     Inr [(''contacts'', PList [PDict (contact_record carol_request)])]"
proof -
  let ?rs = "[alice_request, dave_request, carol_request, bob_request, alice_request]"
  have ok: "snd (save_all sample_vault ?rs (Map.empty, [])) =
              [alice_request, carol_request, bob_request, alice_request]"
    by code_simp
  have u: "user_address alice_request = ''0xabc''" "user_address bob_request = ''0xabc''"
    "user_address carol_request = ''0xdef''"
    by (simp_all add: alice_request_def bob_request_def carol_request_def)
  have r: "saved_records ''0xabc'' [alice_request, carol_request, bob_request, alice_request] =
             [contact_record alice_request, contact_record bob_request,
              contact_record alice_request]"
    "saved_records ''0xdef'' [alice_request, carol_request, bob_request, alice_request] =
       [contact_record carol_request]"
    by (simp_all add: saved_records_def u)
  note a = saved_contacts_accumulate [OF sample_vault_contract, of ?rs "[]" "''0xabc''",
               unfolded ok r]
  note d = saved_contacts_accumulate [OF sample_vault_contract, of ?rs "[]" "''0xdef''",
               unfolded ok r]
  from a d ok sample_vault_contract show ?thesis
    by (simp del: save_all.simps)
qed

end
